theory Spec2Isabelle
  imports Complex_Main "HOL-Library.Log_Nat" "HOL-Library.AList"
begin

section \<open>The fly-to-cart curve: \<^verbatim>\<open>bezierPoint\<close>\<close>

text \<open>
  A JavaScript number is an IEEE-754 binary64 value: a finite number, which is a rational,
  \<^verbatim>\<open>Infinity\<close>, \<^verbatim>\<open>-Infinity\<close> or \<^verbatim>\<open>NaN\<close>. The sign of a zero is not modelled: \<^verbatim>\<open>-0\<close> and
  \<^verbatim>\<open>+0\<close> are both \<open>Finite 0\<close> (they are equal under \<^verbatim>\<open>===\<close>).
\<close>

datatype jsnum = Finite rat | PosInfinity | NegInfinity | NaN

record point =
  px :: jsnum
  py :: jsnum

text \<open>
  Every arithmetic operation of the source on two finite numbers is the exact operation
  followed by a rounding, \<open>rnd\<close>, which may overflow to an infinity. \<^verbatim>\<open>Math.pow\<close> on a
  finite base other than zero is not fixed by the language: ECMAScript asks only for an
  implementation-approximated result. The model takes it from the field \<open>approx_pow\<close>, so
  that a statement about every \<open>arithmetic\<close> holds whatever the engine's approximation is.
\<close>

record arithmetic =
  rnd :: "rat \<Rightarrow> jsnum"
  approx_pow :: "rat \<Rightarrow> nat \<Rightarrow> jsnum"

definition roundHalfEven :: "rat \<Rightarrow> int" where
  "roundHalfEven q =
     (let f = \<lfloor>q\<rfloor>; d = q - of_int f
      in if d < 1 / 2 then f
         else if 1 / 2 < d then f + 1
         else if even f then f else f + 1)"

text \<open>\<open>ilog2 q\<close> is the binary exponent of \<open>q \<noteq> 0\<close>: \<open>2 powi ilog2 q \<le> \<bar>q\<bar> < 2 powi (ilog2 q + 1)\<close>.\<close>

definition ilog2 :: "rat \<Rightarrow> int" where
  "ilog2 q =
     (let (n, d) = quotient_of \<bar>q\<bar>;
          k = bitlen n - bitlen d
      in if 2 powi k \<le> \<bar>q\<bar> then k else k - 1)"

text \<open>
  Rounding to binary64: to nearest, ties to even, with 53 significant bits, on the grid of
  the subnormal numbers (multiples of \<open>2 powi (- 1074)\<close>) below the normal range, and to an
  infinity when the rounded magnitude reaches \<open>2 ^ 1024\<close>. A number whose unit in the last
  place is below \<open>2 ^ 971\<close> is below \<open>2 ^ 1023\<close> in magnitude and cannot overflow, so the
  comparison with \<open>2 ^ 1024\<close> is skipped for it; \<open>binary64_overflow_rule\<close> shows that the
  result is the same without the shortcut.
\<close>

definition binary64 :: "rat \<Rightarrow> jsnum" where
  "binary64 q =
     (if q = 0 then Finite 0
      else let e = max (ilog2 q - 52) (- 1074);
               r = of_int (roundHalfEven (q * 2 powi (- e))) * 2 powi e
           in if e < 971 then Finite r
              else if 2 ^ 1024 \<le> r then PosInfinity
              else if r \<le> - (2 ^ 1024) then NegInfinity
              else Finite r)"

text \<open>
  Two arithmetics. \<open>exactArith\<close> does not round: it is the arithmetic of the rationals.
  \<open>binary64Arith\<close> is the arithmetic of a JavaScript engine whose \<^verbatim>\<open>Math.pow\<close> is correctly
  rounded; it is evaluated below at \<open>t = 0\<close> and \<open>t = 1\<close> only, where the powers are \<open>0\<close>
  and \<open>1\<close>.
\<close>

definition exactArith :: arithmetic where
  "exactArith = \<lparr>rnd = Finite, approx_pow = (\<lambda>b n. Finite (b ^ n))\<rparr>"

definition binary64Arith :: arithmetic where
  "binary64Arith = \<lparr>rnd = binary64, approx_pow = (\<lambda>b n. binary64 (b ^ n))\<rparr>"

fun isFinite :: "jsnum \<Rightarrow> bool" where
  "isFinite (Finite a) = True"
| "isFinite PosInfinity = False"
| "isFinite NegInfinity = False"
| "isFinite NaN = False"

fun js_negate :: "jsnum \<Rightarrow> jsnum" where
  "js_negate (Finite a) = Finite (- a)"
| "js_negate PosInfinity = NegInfinity"
| "js_negate NegInfinity = PosInfinity"
| "js_negate NaN = NaN"

text \<open>
  \<^verbatim>\<open>x + y\<close>, \<^verbatim>\<open>x - y\<close> and \<^verbatim>\<open>x * y\<close>: \<^verbatim>\<open>NaN\<close> is absorbing, infinities of opposite
  sign add up to \<^verbatim>\<open>NaN\<close>, and so does zero times an infinity.
\<close>

fun js_add :: "arithmetic \<Rightarrow> jsnum \<Rightarrow> jsnum \<Rightarrow> jsnum" where
  "js_add ar (Finite a) (Finite b) = rnd ar (a + b)"
| "js_add ar NaN y = NaN"
| "js_add ar x NaN = NaN"
| "js_add ar PosInfinity NegInfinity = NaN"
| "js_add ar NegInfinity PosInfinity = NaN"
| "js_add ar PosInfinity y = PosInfinity"
| "js_add ar NegInfinity y = NegInfinity"
| "js_add ar x PosInfinity = PosInfinity"
| "js_add ar x NegInfinity = NegInfinity"

definition js_sub :: "arithmetic \<Rightarrow> jsnum \<Rightarrow> jsnum \<Rightarrow> jsnum" where
  "js_sub ar x y = js_add ar x (js_negate y)"

fun signOf :: "jsnum \<Rightarrow> int" where
  "signOf (Finite a) = (if a = 0 then 0 else if 0 < a then 1 else - 1)"
| "signOf PosInfinity = 1"
| "signOf NegInfinity = - 1"
| "signOf NaN = 0"

fun js_mul :: "arithmetic \<Rightarrow> jsnum \<Rightarrow> jsnum \<Rightarrow> jsnum" where
  "js_mul ar (Finite a) (Finite b) = rnd ar (a * b)"
| "js_mul ar NaN y = NaN"
| "js_mul ar x NaN = NaN"
| "js_mul ar x y =
     (if signOf x * signOf y = 0 then NaN
      else if 0 < signOf x * signOf y then PosInfinity else NegInfinity)"

text \<open>
  \<^verbatim>\<open>Math.pow(b, n)\<close> for a natural exponent. The language fixes the result for the exponent
  zero, for \<^verbatim>\<open>NaN\<close>, for the infinities and for a zero base; the rest is the engine's
  approximation.
\<close>

definition Math_pow :: "arithmetic \<Rightarrow> jsnum \<Rightarrow> nat \<Rightarrow> jsnum" where
  "Math_pow ar b n =
     (if n = 0 then Finite 1
      else case b of
             Finite q \<Rightarrow> if q = 0 then Finite 0 else approx_pow ar q n
           | PosInfinity \<Rightarrow> PosInfinity
           | NegInfinity \<Rightarrow> if odd n then NegInfinity else PosInfinity
           | NaN \<Rightarrow> NaN)"

text \<open>
  \<^verbatim>\<open>function bezierPoint(t, p0, p1, p2, p3)\<close>: the bindings and the order of the
  operations are those of the source (\<^verbatim>\<open>+\<close> and \<^verbatim>\<open>-\<close> associate to the left).
\<close>

definition bezierPoint :: "arithmetic \<Rightarrow> jsnum \<Rightarrow> point \<Rightarrow> point \<Rightarrow> point \<Rightarrow> point \<Rightarrow> point" where
  "bezierPoint ar t p0 p1 p2 p3 =
     (let cX = js_mul ar (Finite 3) (js_sub ar (px p1) (px p0));
          bX = js_sub ar (js_mul ar (Finite 3) (js_sub ar (px p2) (px p1))) cX;
          aX = js_sub ar (js_sub ar (js_sub ar (px p3) (px p0)) cX) bX;
          cY = js_mul ar (Finite 3) (js_sub ar (py p1) (py p0));
          bY = js_sub ar (js_mul ar (Finite 3) (js_sub ar (py p2) (py p1))) cY;
          aY = js_sub ar (js_sub ar (js_sub ar (py p3) (py p0)) cY) bY;
          x = js_add ar
                (js_add ar
                   (js_add ar (js_mul ar aX (Math_pow ar t 3)) (js_mul ar bX (Math_pow ar t 2)))
                   (js_mul ar cX t))
                (px p0);
          y = js_add ar
                (js_add ar
                   (js_add ar (js_mul ar aY (Math_pow ar t 3)) (js_mul ar bY (Math_pow ar t 2)))
                   (js_mul ar cY t))
                (py p0)
      in \<lparr>px = x, py = y\<rparr>)"

text \<open>A point with finite coordinates.\<close>

definition finitePoint :: "rat \<Rightarrow> rat \<Rightarrow> point" where
  "finitePoint a b = \<lparr>px = Finite a, py = Finite b\<rparr>"

text \<open>
  The three coefficients \<open>a\<close>, \<open>b\<close>, \<open>c\<close> that \<^verbatim>\<open>bezierPoint\<close> computes on one axis, and the
  condition that none of the six has overflowed or is \<^verbatim>\<open>NaN\<close>.
\<close>

definition coefficients :: "arithmetic \<Rightarrow> jsnum \<Rightarrow> jsnum \<Rightarrow> jsnum \<Rightarrow> jsnum \<Rightarrow> jsnum \<times> jsnum \<times> jsnum" where
  "coefficients ar a0 a1 a2 a3 =
     (let c = js_mul ar (Finite 3) (js_sub ar a1 a0);
          b = js_sub ar (js_mul ar (Finite 3) (js_sub ar a2 a1)) c;
          a = js_sub ar (js_sub ar (js_sub ar a3 a0) c) b
      in (a, b, c))"

definition finiteCoefficients :: "arithmetic \<Rightarrow> point \<Rightarrow> point \<Rightarrow> point \<Rightarrow> point \<Rightarrow> bool" where
  "finiteCoefficients ar p0 p1 p2 p3 \<longleftrightarrow>
     (case coefficients ar (px p0) (px p1) (px p2) (px p3) of
        (a, b, c) \<Rightarrow> isFinite a \<and> isFinite b \<and> isFinite c) \<and>
     (case coefficients ar (py p0) (py p1) (py p2) (py p3) of
        (a, b, c) \<Rightarrow> isFinite a \<and> isFinite b \<and> isFinite c)"

text \<open>
  The Bernstein form of the cubic, written from the specification's words:
  \<open>(1 - t)\<^sup>3 p0 + 3 (1 - t)\<^sup>2 t p1 + 3 (1 - t) t\<^sup>2 p2 + t\<^sup>3 p3\<close> on each axis.
\<close>

definition bernstein :: "rat \<Rightarrow> rat \<Rightarrow> rat \<Rightarrow> rat \<Rightarrow> rat \<Rightarrow> rat" where
  "bernstein t a0 a1 a2 a3 =
     (1 - t) ^ 3 * a0 + 3 * (1 - t) ^ 2 * t * a1 + 3 * (1 - t) * t ^ 2 * a2 + t ^ 3 * a3"

section \<open>JavaScript values, elements and the page\<close>

text \<open>
  Values read from parsed JSON and from responses. Only the primitive values are modelled,
  and a number is an integer, which JavaScript prints in decimal (below \<open>10\<^sup>2\<^sup>1\<close>).
  \<open>JUndefined\<close> is also the value of a missing property.
\<close>

datatype jsval = JUndefined | JNull | JBool bool | JNum int | JStr string

datatype js_error = SyntaxError | TypeError | Error string

text \<open>Truthiness, as tested by \<^verbatim>\<open>if (v)\<close> and \<^verbatim>\<open>!v\<close>.\<close>

fun truthy :: "jsval \<Rightarrow> bool" where
  "truthy JUndefined = False"
| "truthy JNull = False"
| "truthy (JBool b) = b"
| "truthy (JNum n) = (n \<noteq> 0)"
| "truthy (JStr s) = (s \<noteq> [])"

definition digit :: "nat \<Rightarrow> char" where
  "digit n = char_of (48 + n)"

function show_nat :: "nat \<Rightarrow> string" where
  "show_nat n = (if n < 10 then [digit n] else show_nat (n div 10) @ [digit (n mod 10)])"
  by pat_completeness auto
termination
  by (relation "measure (\<lambda>n. n)") auto

declare show_nat.simps [simp del]

definition show_int :: "int \<Rightarrow> string" where
  "show_int i = (if i < 0 then CHR ''-'' # show_nat (nat (- i)) else show_nat (nat i))"

text \<open>
  \<^verbatim>\<open>v.toString()\<close>: the method call throws a TypeError on \<^verbatim>\<open>undefined\<close> and
  \<^verbatim>\<open>null\<close>.
\<close>

fun toString :: "jsval \<Rightarrow> js_error + string" where
  "toString JUndefined = Inl TypeError"
| "toString JNull = Inl TypeError"
| "toString (JBool b) = Inr (if b then ''true'' else ''false'')"
| "toString (JNum n) = Inr (show_int n)"
| "toString (JStr s) = Inr s"

text \<open>
  \<^verbatim>\<open>input.value = v ?? ''\<close>: the nullish values give the empty string, every other value
  is converted to its string.
\<close>

fun nullishToEmpty :: "jsval \<Rightarrow> string" where
  "nullishToEmpty JUndefined = []"
| "nullishToEmpty JNull = []"
| "nullishToEmpty (JBool b) = (if b then ''true'' else ''false'')"
| "nullishToEmpty (JNum n) = show_int n"
| "nullishToEmpty (JStr s) = s"

text \<open>
  An element, as far as this file touches one: its attributes (other than \<^verbatim>\<open>class\<close> and
  \<^verbatim>\<open>style\<close>, which the file only reaches through \<^verbatim>\<open>classList\<close> and
  \<^verbatim>\<open>style.display\<close>), its class tokens, its inline display, the text of each of its
  child nodes, and the text content of the descendants that the file looks up by selector.
\<close>

record element =
  attributes :: "(string \<times> string) list"
  classList :: "string list"
  style_display :: string
  childNodes :: "string list"
  descendants :: "(string \<times> string) list"

definition getAttribute :: "element \<Rightarrow> string \<Rightarrow> string option" where
  "getAttribute e k = map_of (attributes e) k"

definition setAttribute :: "string \<Rightarrow> string \<Rightarrow> element \<Rightarrow> element" where
  "setAttribute k v e = e\<lparr>attributes := AList.update k v (attributes e)\<rparr>"

definition removeAttribute :: "string \<Rightarrow> element \<Rightarrow> element" where
  "removeAttribute k e = e\<lparr>attributes := AList.delete k (attributes e)\<rparr>"

definition classList_contains :: "element \<Rightarrow> string \<Rightarrow> bool" where
  "classList_contains e c = (c \<in> set (classList e))"

definition classList_add :: "string \<Rightarrow> element \<Rightarrow> element" where
  "classList_add c e = (if c \<in> set (classList e) then e else e\<lparr>classList := classList e @ [c]\<rparr>)"

definition classList_remove :: "string \<Rightarrow> element \<Rightarrow> element" where
  "classList_remove c e = e\<lparr>classList := filter (\<lambda>d. d \<noteq> c) (classList e)\<rparr>"

definition set_display :: "string \<Rightarrow> element \<Rightarrow> element" where
  "set_display v e = e\<lparr>style_display := v\<rparr>"

text \<open>\<^verbatim>\<open>el.querySelector(sel)?.textContent\<close> for a descendant of \<open>el\<close>.\<close>

definition querySelectorText :: "element \<Rightarrow> string \<Rightarrow> string option" where
  "querySelectorText e sel = map_of (descendants e) sel"

text \<open>A variant record of the product data, and of a variant-change notification.\<close>

record variant =
  variant_id :: jsval
  available :: "bool option"
  featured_media_src :: "string option"

text \<open>
  \<open>available\<close> is \<open>None\<close> when the property is missing or \<^verbatim>\<open>null\<close>;
  \<^verbatim>\<open>undefined == false\<close> and \<^verbatim>\<open>null == false\<close> are both false.
  \<open>featured_media_src\<close> is \<^verbatim>\<open>featured_media?.preview_image?.src\<close>.
\<close>

text \<open>
  The parsed product data. \<open>variants\<close> is \<open>None\<close> when \<^verbatim>\<open>productData.variants.find\<close>
  cannot be called (the data is \<^verbatim>\<open>null\<close>, or \<^verbatim>\<open>variants\<close> is not an array). An entry
  of the array that is no object is an entry whose \<open>variant_id\<close> is \<open>JUndefined\<close>.
\<close>

record product_data =
  variants :: "variant list option"

text \<open>
  Timers. A pending timer has the handle \<^verbatim>\<open>setTimeout\<close> returned, the time at which it
  is due and the callback it will run. The four callbacks are the four arrow functions the
  file passes to \<^verbatim>\<open>setTimeout\<close>.
\<close>

datatype callback = AnimationDone | RemoveAtcAdded | ErrorClear | LiveRegionClear

record timer =
  timer_id :: nat
  due :: nat
  callback :: callback

text \<open>
  An \<^verbatim>\<open>AddToCartComponent\<close>: its button ref, its two private timer handles and its own
  attributes.
\<close>

record add_to_cart =
  addToCartButton :: "element option"
  animationTimeout :: "nat option"
  cleanupTimeout :: "nat option"
  component_attributes :: "(string \<times> string) list"

record cart_add_detail =
  didError :: bool
  source :: string
  itemCount :: "string option"
  detail_productId :: "string option"
  sections :: "(string \<times> string) list option"

text \<open>
  \<open>itemCount\<close> holds \<^verbatim>\<open>formData.get('quantity')\<close> as read, before \<^verbatim>\<open>Number\<close>;
  \<open>didError\<close> is \<open>False\<close> where the source leaves the property out.
\<close>

datatype notification =
    CartErrorEvent string string
  | CartAddEvent string cart_add_detail

datatype log_entry =
    ProductJsonError js_error
  | ProductJsonMissing
  | PromiseRejected js_error

text \<open>
  \<open>ProductJsonError e\<close> is the \<^verbatim>\<open>console.error\<close> of the \<^verbatim>\<open>catch\<close> in
  \<^verbatim>\<open>#initializeWithCurrentVariant\<close>, \<open>ProductJsonMissing\<close> the \<^verbatim>\<open>console.warn\<close> of its
  \<^verbatim>\<open>else\<close>, \<open>PromiseRejected e\<close> the \<^verbatim>\<open>console.error(error)\<close> of the \<^verbatim>\<open>.catch\<close> in
  \<^verbatim>\<open>handleSubmit\<close>.
\<close>

record request =
  url :: string
  body :: "(string \<times> string) list"

record response =
  status :: jsval
  message :: string
  response_sections :: "(string \<times> string) list option"

datatype outcome = Rejected js_error | Json response

record variant_update_event =
  newProduct_id :: "string option"
  data_productId :: "string option"
  html_addToCartButton :: "element option"
  resource :: "variant option"

text \<open>
  \<open>newProduct_id\<close> is \<open>Some\<close> the id of \<^verbatim>\<open>event.detail.data.newProduct\<close> when that is
  set; \<open>html_addToCartButton\<close> is the result of
  \<^verbatim>\<open>event.detail.data.html.querySelector('[ref="addToCartButton"]')\<close>.
\<close>

text \<open>
  The page around one \<^verbatim>\<open>ProductFormComponent\<close>: the refs of the component
  (\<open>variantId_value\<close>, \<open>liveRegion_textContent\<close>, \<open>addToCartButtonContainer\<close>,
  \<open>addToCartTextError\<close>, \<open>acceleratedCheckoutButtonContainer\<close>), its private fields
  (\<open>timeout_handle\<close> for \<^verbatim>\<open>#timeout\<close>, \<open>signal_aborted\<close> for the abort controller), what
  its queries find (\<open>section_target\<close>, \<open>form\<close>, \<open>productJsonScript\<close>, \<open>stockIndicator\<close>,
  \<open>cartItemsComponents\<close> with the \<^verbatim>\<open>dataset.sectionId\<close> of each), the theme globals, the
  timers of the window and its clock, and what the component has emitted: console entries,
  dispatched notifications, requests and performance measurements.
\<close>

record world =
  variantId_value :: string
  liveRegion_textContent :: string
  addToCartButtonContainer :: "add_to_cart option"
  addToCartTextError :: "element option"
  acceleratedCheckoutButtonContainer :: "element option"
  timeout_handle :: "nat option"
  signal_aborted :: bool
  listening :: bool
  section_target :: bool
  component_id :: string
  dataset_productId :: "string option"
  form :: "(string \<times> string) list option"
  productJsonScript :: "string option"
  stockIndicator :: "element option"
  cartItemsComponents :: "string option list"
  theme_routes_root :: string
  theme_translations_added :: string
  timers :: "timer list"
  nextTimerId :: nat
  now :: nat
  console :: "log_entry list"
  dispatched :: "notification list"
  fetches :: "request list"
  measured :: nat

section \<open>Timers\<close>

definition setTimeout :: "callback \<Rightarrow> nat \<Rightarrow> world \<Rightarrow> nat \<times> world" where
  "setTimeout cb delay w =
     (nextTimerId w,
      w\<lparr>timers := timers w @ [\<lparr>timer_id = nextTimerId w, due = now w + delay, callback = cb\<rparr>],
        nextTimerId := Suc (nextTimerId w)\<rparr>)"

definition clearTimeout :: "nat \<Rightarrow> world \<Rightarrow> world" where
  "clearTimeout h w = w\<lparr>timers := filter (\<lambda>t. timer_id t \<noteq> h) (timers w)\<rparr>"

text \<open>\<^verbatim>\<open>if (h) clearTimeout(h)\<close>: \<^verbatim>\<open>undefined\<close> and \<open>0\<close> are falsy.\<close>

definition clearIfSet :: "nat option \<Rightarrow> world \<Rightarrow> world" where
  "clearIfSet h w = (case h of None \<Rightarrow> w | Some i \<Rightarrow> if i \<noteq> 0 then clearTimeout i w else w)"

section \<open>\<^verbatim>\<open>AddToCartComponent\<close>\<close>

definition ADD_TO_CART_TEXT_ANIMATION_DURATION :: nat where
  "ADD_TO_CART_TEXT_ANIMATION_DURATION = 2000"

text \<open>\<^verbatim>\<open>addToCartButtonContainer?.refs.addToCartButton\<close>\<close>

definition currentAddToCartButton :: "world \<Rightarrow> element option" where
  "currentAddToCartButton w =
     (case addToCartButtonContainer w of None \<Rightarrow> None | Some c \<Rightarrow> addToCartButton c)"

text \<open>Writing a mutated button, or a mutated component, back to the page.\<close>

definition update_container :: "(add_to_cart \<Rightarrow> add_to_cart) \<Rightarrow> world \<Rightarrow> world" where
  "update_container f w = w\<lparr>addToCartButtonContainer := map_option f (addToCartButtonContainer w)\<rparr>"

definition update_button :: "(element \<Rightarrow> element) \<Rightarrow> world \<Rightarrow> world" where
  "update_button f w = update_container (\<lambda>c. c\<lparr>addToCartButton := map_option f (addToCartButton c)\<rparr>) w"

text \<open>
  \<^verbatim>\<open>animateAddToCart()\<close>. The method runs on the component, so there is nothing to run
  when the page has none. Reading \<^verbatim>\<open>classList\<close> of a missing button ref throws, after
  the two timers were cleared.
\<close>

definition animateAddToCart :: "world \<Rightarrow> js_error option \<times> world" where
  "animateAddToCart w =
     (case addToCartButtonContainer w of
        None \<Rightarrow> (None, w)
      | Some c \<Rightarrow>
          (let w1 = clearIfSet (animationTimeout c) w;
               w2 = clearIfSet (cleanupTimeout c) w1
           in case addToCartButton c of
                None \<Rightarrow> (Some TypeError, w2)
              | Some b \<Rightarrow>
                  (let w3 = (if \<not> classList_contains b ''atc-added''
                             then update_button (classList_add ''atc-added'') w2 else w2);
                       (h, w4) = setTimeout AnimationDone ADD_TO_CART_TEXT_ANIMATION_DURATION w3
                   in (None, update_container (\<lambda>c. c\<lparr>animationTimeout := Some h\<rparr>) w4))))"

text \<open>\<^verbatim>\<open>AddToCartComponent.disconnectedCallback()\<close>\<close>

definition addToCart_disconnectedCallback :: "world \<Rightarrow> world" where
  "addToCart_disconnectedCallback w =
     (case addToCartButtonContainer w of
        None \<Rightarrow> w
      | Some c \<Rightarrow> clearIfSet (cleanupTimeout c) (clearIfSet (animationTimeout c) w))"

section \<open>\<^verbatim>\<open>ProductFormComponent\<close>\<close>

text \<open>\<^verbatim>\<open>variant == null || variant.available == false\<close>\<close>

definition unavailable :: "variant option \<Rightarrow> bool" where
  "unavailable v = (case v of None \<Rightarrow> True | Some x \<Rightarrow> available x = Some False)"

text \<open>\<^verbatim>\<open>#updateAvailabilityState(variant)\<close>\<close>

definition updateAvailabilityState :: "variant option \<Rightarrow> world \<Rightarrow> world" where
  "updateAvailabilityState v w =
     (if currentAddToCartButton w = None \<or> stockIndicator w = None then w
      else if unavailable v then
        (update_button (set_display ''none'' \<circ> setAttribute ''disabled'' ''true'') w)
          \<lparr>stockIndicator :=
             map_option (classList_add ''nonavaible'' \<circ> classList_remove ''avaible'') (stockIndicator w),
           acceleratedCheckoutButtonContainer :=
             map_option (setAttribute ''hidden'' ''true'') (acceleratedCheckoutButtonContainer w)\<rparr>
      else
        (update_button (set_display ''block'' \<circ> removeAttribute ''disabled'') w)
          \<lparr>stockIndicator :=
             map_option (classList_remove ''nonavaible'' \<circ> classList_add ''avaible'') (stockIndicator w),
           acceleratedCheckoutButtonContainer :=
             map_option (removeAttribute ''hidden'') (acceleratedCheckoutButtonContainer w)\<rparr>)"

text \<open>
  \<^verbatim>\<open>variants.find(v => v.id.toString() === currentVariantId)\<close>: the first match, and a
  TypeError from the first entry before it whose id has no \<^verbatim>\<open>toString\<close>.
\<close>

fun find_variant :: "string \<Rightarrow> variant list \<Rightarrow> js_error + variant option" where
  "find_variant cur [] = Inr None"
| "find_variant cur (v # vs) =
     (case toString (variant_id v) of
        Inl e \<Rightarrow> Inl e
      | Inr s \<Rightarrow> if s = cur then Inr (Some v) else find_variant cur vs)"

text \<open>
  The body of the \<^verbatim>\<open>try\<close> block up to the call of \<^verbatim>\<open>#updateAvailabilityState\<close>.
  \<^verbatim>\<open>JSON.parse\<close> is the host's; the model takes it as the parameter \<open>parse\<close>, whose
  result is the parsed product data or the SyntaxError thrown.
\<close>

definition currentVariant :: "(string \<Rightarrow> js_error + product_data) \<Rightarrow> string \<Rightarrow> world
    \<Rightarrow> js_error + variant option" where
  "currentVariant parse text w =
     (case parse text of
        Inl e \<Rightarrow> Inl e
      | Inr productData \<Rightarrow>
          (case variants productData of
             None \<Rightarrow> Inl TypeError
           | Some vs \<Rightarrow> find_variant (variantId_value w) vs))"

text \<open>\<^verbatim>\<open>#initializeWithCurrentVariant()\<close>\<close>

definition initializeWithCurrentVariant :: "(string \<Rightarrow> js_error + product_data) \<Rightarrow> world \<Rightarrow> world" where
  "initializeWithCurrentVariant parse w =
     (case productJsonScript w of
        Some text \<Rightarrow>
          (case currentVariant parse text w of
             Inr v \<Rightarrow> updateAvailabilityState v w
           | Inl e \<Rightarrow> w\<lparr>console := console w @ [ProductJsonError e]\<rparr>)
      | None \<Rightarrow> w\<lparr>console := console w @ [ProductJsonMissing]\<rparr>)"

text \<open>
  \<^verbatim>\<open>connectedCallback()\<close> and \<^verbatim>\<open>disconnectedCallback()\<close> of the product form. A
  listener added with an aborted signal is not added. The base class \<^verbatim>\<open>Component\<close> is not
  part of the file; its callbacks are left out.
\<close>

definition productForm_connectedCallback :: "(string \<Rightarrow> js_error + product_data) \<Rightarrow> world \<Rightarrow> world" where
  "productForm_connectedCallback parse w =
     initializeWithCurrentVariant parse
       (if section_target w \<and> \<not> signal_aborted w then w\<lparr>listening := True\<rparr> else w)"

definition productForm_disconnectedCallback :: "world \<Rightarrow> world" where
  "productForm_disconnectedCallback w = w\<lparr>signal_aborted := True, listening := False\<rparr>"

text \<open>\<^verbatim>\<open>Array.prototype.join\<close> and \<^verbatim>\<open>FormData.get\<close> (the first value of the name).\<close>

fun join :: "string \<Rightarrow> string list \<Rightarrow> string" where
  "join sep [] = []"
| "join sep [a] = a"
| "join sep (a # b # bs) = a @ sep @ join sep (b # bs)"

definition formData_get :: "(string \<times> string) list \<Rightarrow> string \<Rightarrow> string option" where
  "formData_get fd k = map_of fd k"

text \<open>
  The \<^verbatim>\<open>forEach\<close> over the cart-items components: an item with a non-empty section id
  adds it to the list, and every item appends the joined list as one more \<^verbatim>\<open>sections\<close>
  field.
\<close>

fun appendSections :: "string option list \<Rightarrow> string list \<Rightarrow> (string \<times> string) list
    \<Rightarrow> (string \<times> string) list" where
  "appendSections [] ids fd = fd"
| "appendSections (item # items) ids fd =
     (let ids' = (case item of None \<Rightarrow> ids | Some i \<Rightarrow> if i \<noteq> [] then ids @ [i] else ids)
      in appendSections items ids' (fd @ [(''sections'', join '','' ids')]))"

text \<open>
  \<^verbatim>\<open>handleSubmit(event)\<close> up to the call of \<^verbatim>\<open>fetch\<close>. The request is added to
  \<open>fetches\<close>; the promise chain is \<open>settle\<close> below, run when the outcome arrives.
  \<^verbatim>\<open>event.preventDefault()\<close> acts on the event only and \<^verbatim>\<open>fetchConfig\<close> on the options
  of the request only; neither is part of the page.
\<close>

definition handleSubmit :: "world \<Rightarrow> js_error option \<times> world" where
  "handleSubmit w =
     (let w1 = clearIfSet (timeout_handle w) w
      in if (case currentAddToCartButton w1 of None \<Rightarrow> None | Some b \<Rightarrow> getAttribute b ''disabled'')
            = Some ''true''
         then (None, w1)
         else case form w1 of
                None \<Rightarrow> (Some (Error ''Product form element missing''), w1)
              | Some entries \<Rightarrow>
                  (let formData = appendSections (cartItemsComponents w1) [] entries
                   in (None, w1\<lparr>fetches := fetches w1 @
                          [\<lparr>url = theme_routes_root w1 @ ''cart/add.js'', body = formData\<rparr>]\<rparr>)))"

definition setLiveRegionText :: "string \<Rightarrow> world \<Rightarrow> world" where
  "setLiveRegionText text w = w\<lparr>liveRegion_textContent := text\<rparr>"

definition clearLiveRegionText :: "world \<Rightarrow> world" where
  "clearLiveRegionText w = w\<lparr>liveRegion_textContent := []\<rparr>"

definition dispatchEvent :: "notification \<Rightarrow> world \<Rightarrow> world" where
  "dispatchEvent n w = w\<lparr>dispatched := dispatched w @ [n]\<rparr>"

text \<open>\<^verbatim>\<open>String.prototype.trim\<close>, on the ASCII white space.\<close>

definition isWhiteSpace :: "char \<Rightarrow> bool" where
  "isWhiteSpace c = (c \<in> set [CHR 0x09, CHR 0x0A, CHR 0x0B, CHR 0x0C, CHR 0x0D, CHR 0x20])"

definition trim :: "string \<Rightarrow> string" where
  "trim s = rev (dropWhile isWhiteSpace (rev (dropWhile isWhiteSpace s)))"

text \<open>
  \<^verbatim>\<open>addedTextElement?.textContent?.trim() || Theme.translations.added\<close>
\<close>

definition addedText :: "element \<Rightarrow> world \<Rightarrow> string" where
  "addedText b w =
     (case querySelectorText b ''.add-to-cart-text--added'' of
        None \<Rightarrow> theme_translations_added w
      | Some t \<Rightarrow> if trim t = [] then theme_translations_added w else trim t)"

text \<open>
  Writing the message into the error element: \<^verbatim>\<open>childNodes[2]\<close> when there is one,
  a new text node at the end otherwise.
\<close>

definition writeMessage :: "string \<Rightarrow> element \<Rightarrow> element" where
  "writeMessage m e =
     (if 2 < length (childNodes e) then e\<lparr>childNodes := (childNodes e)[2 := m]\<rparr>
      else e\<lparr>childNodes := childNodes e @ [m]\<rparr>)"

text \<open>
  The second \<^verbatim>\<open>.then\<close> callback of \<^verbatim>\<open>handleSubmit\<close>, on the parsed response;
  \<open>formData\<close> is the body the request was built with.
\<close>

definition onResponse :: "(string \<times> string) list \<Rightarrow> response \<Rightarrow> world \<Rightarrow> js_error option \<times> world" where
  "onResponse formData r w =
     (if truthy (status r) then
        (let w1 = dispatchEvent (CartErrorEvent (component_id w) (message r)) w
         in case addToCartTextError w1 of
              None \<Rightarrow> (None, w1)
            | Some e \<Rightarrow>
                (let w2 = w1\<lparr>addToCartTextError :=
                             Some (writeMessage (message r) (classList_remove ''hidden'' e))\<rparr>;
                     w3 = setLiveRegionText (message r) w2;
                     (h, w4) = setTimeout ErrorClear 10000 w3;
                     w5 = w4\<lparr>timeout_handle := Some h\<rparr>
                 in (None,
                     dispatchEvent
                       (CartAddEvent (component_id w5)
                          \<lparr>didError = True, source = ''product-form-component'',
                           itemCount = formData_get formData ''quantity'',
                           detail_productId = dataset_productId w5, sections = None\<rparr>)
                       w5)))
      else
        (let w1 = w\<lparr>addToCartTextError :=
                     map_option (removeAttribute ''aria-live'' \<circ> classList_add ''hidden'')
                       (addToCartTextError w)\<rparr>
         in case formData_get formData ''id'' of
              None \<Rightarrow> (Some (Error ''Form ID is required''), w1)
            | Some i \<Rightarrow>
                if i = [] then (Some (Error ''Form ID is required''), w1)
                else
                  (let w2 = (case currentAddToCartButton w1 of
                               None \<Rightarrow> w1
                             | Some b \<Rightarrow>
                                 snd (setTimeout LiveRegionClear 5000
                                        (setLiveRegionText (addedText b w1) w1)))
                   in (None,
                       dispatchEvent
                         (CartAddEvent i
                            \<lparr>didError = False, source = ''product-form-component'',
                             itemCount = formData_get formData ''quantity'',
                             detail_productId = dataset_productId w2,
                             sections = response_sections r\<rparr>)
                         w2))))"

text \<open>
  The whole chain \<^verbatim>\<open>.then(...).then(...).catch(...).finally(...)\<close>: a rejection of
  \<^verbatim>\<open>fetch\<close> or of \<^verbatim>\<open>response.json()\<close> and an exception of the callback are logged,
  and the measurement is reported in every case.
\<close>

definition settle :: "(string \<times> string) list \<Rightarrow> outcome \<Rightarrow> world \<Rightarrow> world" where
  "settle formData out w =
     (let w' = (case out of
                  Rejected e \<Rightarrow> w\<lparr>console := console w @ [PromiseRejected e]\<rparr>
                | Json r \<Rightarrow>
                    (case onResponse formData r w of
                       (None, w1) \<Rightarrow> w1
                     | (Some e, w1) \<Rightarrow> w1\<lparr>console := console w1 @ [PromiseRejected e]\<rparr>))
      in w'\<lparr>measured := Suc (measured w')\<rparr>)"

text \<open>
  \<^verbatim>\<open>#onVariantUpdate(event)\<close>. \<^verbatim>\<open>morph\<close> is imported from another module; the model
  takes it as the parameter \<open>morph\<close>, which gives the current button after it was morphed
  towards the new one. Reading \<^verbatim>\<open>event.detail.resource.id\<close> of a missing resource throws
  a TypeError.
\<close>

definition onVariantUpdate :: "(element \<Rightarrow> element \<Rightarrow> element) \<Rightarrow> variant_update_event \<Rightarrow> world
    \<Rightarrow> js_error option \<times> world" where
  "onVariantUpdate morph ev w =
     (case (case newProduct_id ev of
              Some p \<Rightarrow> Some (w\<lparr>dataset_productId := Some p\<rparr>)
            | None \<Rightarrow> if data_productId ev \<noteq> dataset_productId w then None else Some w) of
        None \<Rightarrow> (None, w)
      | Some w1 \<Rightarrow>
          (case currentAddToCartButton w1 of
             None \<Rightarrow> (None, w1)
           | Some b \<Rightarrow>
               (let w2 = updateAvailabilityState (resource ev) w1;
                    w3 = (case html_addToCartButton ev of
                            None \<Rightarrow> w2
                          | Some newButton \<Rightarrow> update_button (\<lambda>cur. morph cur newButton) w2)
                in case resource ev of
                     None \<Rightarrow> (Some TypeError, w3)
                   | Some r \<Rightarrow>
                       (let w4 = w3\<lparr>variantId_value := nullishToEmpty (variant_id r)\<rparr>
                        in (None,
                            case featured_media_src r of
                              None \<Rightarrow> w4
                            | Some media \<Rightarrow>
                                if media = [] then w4
                                else update_container
                                       (\<lambda>c. c\<lparr>component_attributes :=
                                                AList.update ''data-product-variant-media''
                                                  (media @ ''&width=100'') (component_attributes c)\<rparr>)
                                       w4)))))"

section \<open>Running the page\<close>

text \<open>The four timer callbacks.\<close>

fun runCallback :: "callback \<Rightarrow> world \<Rightarrow> js_error option \<times> world" where
  "runCallback AnimationDone w =
     (let (h, w1) = setTimeout RemoveAtcAdded 10 w
      in (None, update_container (\<lambda>c. c\<lparr>cleanupTimeout := Some h\<rparr>) w1))"
| "runCallback RemoveAtcAdded w =
     (case currentAddToCartButton w of
        None \<Rightarrow> (Some TypeError, w)
      | Some b \<Rightarrow> (None, update_button (classList_remove ''atc-added'') w))"
| "runCallback ErrorClear w =
     (case addToCartTextError w of
        None \<Rightarrow> (None, w)
      | Some e \<Rightarrow>
          (None, clearLiveRegionText (w\<lparr>addToCartTextError := Some (classList_add ''hidden'' e)\<rparr>)))"
| "runCallback LiveRegionClear w = (None, clearLiveRegionText w)"

text \<open>
  The event loop runs the pending timer with handle \<open>h\<close> once it is due; the timer leaves
  the list before its callback runs. Nothing happens for a handle that is not pending or
  not yet due.
\<close>

definition fireTimer :: "nat \<Rightarrow> world \<Rightarrow> js_error option \<times> world" where
  "fireTimer h w =
     (case find (\<lambda>t. timer_id t = h) (timers w) of
        None \<Rightarrow> (None, w)
      | Some t \<Rightarrow>
          if due t \<le> now w then runCallback (callback t) (clearTimeout h w) else (None, w))"

text \<open>
  What can happen to the page. An exception ends the handler it was thrown in and leaves
  the page as the handler had left it, so \<open>exec\<close> keeps the page of the result.
\<close>

datatype action =
    AnimateAddToCart
  | AddToCartDisconnected
  | ProductFormConnected
  | ProductFormDisconnected
  | Submit
  | Settle "(string \<times> string) list" outcome
  | VariantUpdate variant_update_event
  | FireTimer nat
  | Elapse nat

fun exec :: "(string \<Rightarrow> js_error + product_data) \<Rightarrow> (element \<Rightarrow> element \<Rightarrow> element) \<Rightarrow> action
    \<Rightarrow> world \<Rightarrow> world" where
  "exec parse morph AnimateAddToCart w = snd (animateAddToCart w)"
| "exec parse morph AddToCartDisconnected w = addToCart_disconnectedCallback w"
| "exec parse morph ProductFormConnected w = productForm_connectedCallback parse w"
| "exec parse morph ProductFormDisconnected w = productForm_disconnectedCallback w"
| "exec parse morph Submit w = snd (handleSubmit w)"
| "exec parse morph (Settle formData out) w = settle formData out w"
| "exec parse morph (VariantUpdate ev) w = (if listening w then snd (onVariantUpdate morph ev w) else w)"
| "exec parse morph (FireTimer h) w = snd (fireTimer h w)"
| "exec parse morph (Elapse d) w = w\<lparr>now := now w + d\<rparr>"

fun run :: "(string \<Rightarrow> js_error + product_data) \<Rightarrow> (element \<Rightarrow> element \<Rightarrow> element) \<Rightarrow> action list
    \<Rightarrow> world \<Rightarrow> world" where
  "run parse morph [] w = w"
| "run parse morph (a # as) w = run parse morph as (exec parse morph a w)"

text \<open>
  A fresh page: no timer is pending, the private timer handles of the add-to-cart component
  are still undefined, and the next timer handle is positive, as every handle of
  \<^verbatim>\<open>setTimeout\<close> is.
\<close>

definition fresh :: "world \<Rightarrow> bool" where
  "fresh w \<longleftrightarrow>
     timers w = [] \<and> 0 < nextTimerId w \<and>
     (case addToCartButtonContainer w of
        None \<Rightarrow> True
      | Some c \<Rightarrow> animationTimeout c = None \<and> cleanupTimeout c = None)"

text \<open>The pending timers of the add-to-cart component.\<close>

definition isAddToCartTimer :: "timer \<Rightarrow> bool" where
  "isAddToCartTimer t \<longleftrightarrow> callback t = AnimationDone \<or> callback t = RemoveAtcAdded"

definition addToCartTimers :: "world \<Rightarrow> timer list" where
  "addToCartTimers w = filter isAddToCartTimer (timers w)"

section \<open>The two availability states\<close>

text \<open>
  The two states of the availability state machine, as the page shows them: the purchase
  control, the stock indicator and, where the page has one, the accelerated-checkout
  container.
\<close>

definition showsUnavailable :: "world \<Rightarrow> bool" where
  "showsUnavailable w \<longleftrightarrow>
     (case currentAddToCartButton w of
        None \<Rightarrow> False
      | Some b \<Rightarrow> getAttribute b ''disabled'' = Some ''true'' \<and> style_display b = ''none'') \<and>
     (case stockIndicator w of
        None \<Rightarrow> False
      | Some i \<Rightarrow> classList_contains i ''nonavaible'' \<and> \<not> classList_contains i ''avaible'') \<and>
     (case acceleratedCheckoutButtonContainer w of
        None \<Rightarrow> True
      | Some a \<Rightarrow> getAttribute a ''hidden'' = Some ''true'')"

definition showsAvailable :: "world \<Rightarrow> bool" where
  "showsAvailable w \<longleftrightarrow>
     (case currentAddToCartButton w of
        None \<Rightarrow> False
      | Some b \<Rightarrow> getAttribute b ''disabled'' = None \<and> style_display b = ''block'') \<and>
     (case stockIndicator w of
        None \<Rightarrow> False
      | Some i \<Rightarrow> classList_contains i ''avaible'' \<and> \<not> classList_contains i ''nonavaible'') \<and>
     (case acceleratedCheckoutButtonContainer w of
        None \<Rightarrow> True
      | Some a \<Rightarrow> getAttribute a ''hidden'' = None)"

section \<open>A sample page\<close>

text \<open>
  A page with every optional element present, and a stand-in for \<^verbatim>\<open>JSON.parse\<close> on
  two texts: product data without variants, and product data with the variant 42.
\<close>

definition noVariantsJson :: string where
  "noVariantsJson = ''{'' @ [CHR 0x22] @ ''variants'' @ [CHR 0x22] @ '':[]}''"

definition oneVariantJson :: string where
  "oneVariantJson =
     ''{'' @ [CHR 0x22] @ ''variants'' @ [CHR 0x22] @ '':[{'' @ [CHR 0x22] @ ''id'' @ [CHR 0x22] @ '':42,''
       @ [CHR 0x22] @ ''available'' @ [CHR 0x22] @ '':true}]}''"

definition emptyElement :: element where
  "emptyElement = \<lparr>attributes = [], classList = [], style_display = [], childNodes = [], descendants = []\<rparr>"

definition sampleVariant :: variant where
  "sampleVariant = \<lparr>variant_id = JNum 42, available = Some True, featured_media_src = None\<rparr>"

definition samplePage :: world where
  "samplePage =
     \<lparr>variantId_value = ''42'',
      liveRegion_textContent = [],
      addToCartButtonContainer =
        Some \<lparr>addToCartButton = Some emptyElement, animationTimeout = None, cleanupTimeout = None,
              component_attributes = []\<rparr>,
      addToCartTextError = Some (emptyElement\<lparr>classList := [''hidden'']\<rparr>),
      acceleratedCheckoutButtonContainer = Some emptyElement,
      timeout_handle = None,
      signal_aborted = False,
      listening = False,
      section_target = True,
      component_id = ''product-form'',
      dataset_productId = Some ''7'',
      form = Some [(''id'', ''42''), (''quantity'', ''1'')],
      productJsonScript = Some noVariantsJson,
      stockIndicator = Some emptyElement,
      cartItemsComponents = [Some ''cart-drawer''],
      theme_routes_root = ''/'',
      theme_translations_added = ''Added'',
      timers = [],
      nextTimerId = 1,
      now = 0,
      console = [],
      dispatched = [],
      fetches = [],
      measured = 0\<rparr>"

definition sampleParse :: "string \<Rightarrow> js_error + product_data" where
  "sampleParse text =
     (if text = noVariantsJson then Inr \<lparr>variants = Some []\<rparr>
      else if text = oneVariantJson then Inr \<lparr>variants = Some [sampleVariant]\<rparr>
      else Inl SyntaxError)"

text \<open>
  More of the sample page: the page after the unavailable transition, a variant-change
  notification for the product of the page, an error response, a success response and the
  form data of a request. \<open>revealedWith m e e'\<close> says that \<open>e'\<close> is \<open>e\<close> revealed with the
  message \<open>m\<close>: not \<^verbatim>\<open>hidden\<close>, and \<open>m\<close> is the text of its third child node, or of a new
  last child node where \<open>e\<close> had fewer than three.
\<close>

definition disabledPage :: world where
  "disabledPage = updateAvailabilityState None samplePage"


definition revealedWith :: "string \<Rightarrow> element \<Rightarrow> element \<Rightarrow> bool" where
  "revealedWith m e e' \<longleftrightarrow>
     \<not> classList_contains e' ''hidden'' \<and>
     childNodes e' = (if 2 < length (childNodes e) then (childNodes e)[2 := m] else childNodes e @ [m])"

definition soldOut :: response where
  "soldOut = \<lparr>status = JNum 422, message = ''Sold out'', response_sections = None\<rparr>"

definition added :: response where
  "added =
     \<lparr>status = JUndefined, message = [],
      response_sections = Some [(''cart-drawer'', ''<div>1</div>'')]\<rparr>"

definition sampleFormData :: "(string \<times> string) list" where
  "sampleFormData = [(''id'', ''42''), (''quantity'', ''1''), (''sections'', ''cart-drawer'')]"

section \<open>The timers of the add-to-cart component\<close>

text \<open>
  The two private handles as the page holds them, and the invariant of the page: every
  handle is positive, and the add-to-cart component has at most one pending timer, which
  is the animation timer held in \<^verbatim>\<open>#animationTimeout\<close> or the cleanup timer held in
  \<^verbatim>\<open>#cleanupTimeout\<close>. \<open>sameTimers w' w\<close> says that a step left the timers and the
  handles alone. \<open>twoClicks\<close>, \<open>addedThenTornDown\<close> and \<open>soldOutThenTornDown\<close> are three runs
  of the sample page.
\<close>

definition animationHandle :: "world \<Rightarrow> nat option" where
  "animationHandle w = (case addToCartButtonContainer w of None \<Rightarrow> None | Some c \<Rightarrow> animationTimeout c)"

definition cleanupHandle :: "world \<Rightarrow> nat option" where
  "cleanupHandle w = (case addToCartButtonContainer w of None \<Rightarrow> None | Some c \<Rightarrow> cleanupTimeout c)"

definition timersTracked :: "world \<Rightarrow> bool" where
  "timersTracked w \<longleftrightarrow>
     0 < nextTimerId w \<and> (\<forall>t \<in> set (timers w). 0 < timer_id t) \<and>
     (addToCartTimers w = [] \<or>
      (\<exists>t. addToCartTimers w = [t] \<and>
           (callback t = AnimationDone \<and> animationHandle w = Some (timer_id t) \<or>
            callback t = RemoveAtcAdded \<and> cleanupHandle w = Some (timer_id t))))"

definition sameTimers :: "world \<Rightarrow> world \<Rightarrow> bool" where
  "sameTimers w' w \<longleftrightarrow>
     timers w' = timers w \<and> nextTimerId w' = nextTimerId w \<and>
     animationHandle w' = animationHandle w \<and> cleanupHandle w' = cleanupHandle w"

definition twoClicks :: "action list" where
  "twoClicks = [AnimateAddToCart, Elapse 1000, AnimateAddToCart]"

definition addedThenTornDown :: "action list" where
  "addedThenTornDown = [Settle sampleFormData (Json added), ProductFormDisconnected]"

definition soldOutThenTornDown :: "action list" where
  "soldOutThenTornDown = [Settle sampleFormData (Json soldOut), ProductFormDisconnected]"

section \<open>Properties of the curve\<close>

lemma binary64_zero: "binary64 0 = Finite 0"
  by (simp add: binary64_def)

lemma binary64_one: "binary64 1 = Finite 1"
  by code_simp

lemma binary64_half: "binary64 (1 / 2) = Finite (1 / 2)"
  by code_simp

lemma binary64_tenth: "binary64 (1 / 10) = Finite (3602879701896397 / 2 ^ 55)"
  by code_simp

lemma binary64_fifth: "binary64 (1 / 5) = Finite (3602879701896397 / 2 ^ 54)"
  by code_simp

lemma binary64_third: "binary64 (1 / 3) = Finite (6004799503160661 / 2 ^ 54)"
  by code_simp

lemma binary64_tenth_minus_three:
  "binary64 (3602879701896397 / 2 ^ 55 - 3) = Finite (- 6530219459687219 / 2 ^ 51)"
  by code_simp

lemma binary64_ties:
  "binary64 (2 ^ 53 + 1) = Finite (2 ^ 53)" "binary64 (2 ^ 53 + 3) = Finite (2 ^ 53 + 4)"
  by code_simp+

lemma roundHalfEven_of_int: "roundHalfEven (of_int j) = j"
  by (simp add: roundHalfEven_def)

lemma roundHalfEven_bounds: "\<lfloor>y\<rfloor> \<le> roundHalfEven y \<and> roundHalfEven y \<le> \<lfloor>y\<rfloor> + 1"
  by (simp add: roundHalfEven_def Let_def)

lemma roundHalfEven_ge:
  assumes "of_int n \<le> y"
  shows "n \<le> roundHalfEven y"
proof -
  from assms have "n \<le> \<lfloor>y\<rfloor>" by (simp add: le_floor_iff)
  with roundHalfEven_bounds [of y] show ?thesis by simp
qed

lemma roundHalfEven_le:
  assumes "y \<le> of_int n"
  shows "roundHalfEven y \<le> n"
proof (cases "y = of_int n")
  case True
  then show ?thesis by (simp add: roundHalfEven_of_int)
next
  case False
  with assms have "y < of_int n" by simp
  then have "\<lfloor>y\<rfloor> < n" by (simp add: floor_less_iff)
  with roundHalfEven_bounds [of y] show ?thesis by simp
qed

lemma ilog2_bounds:
  assumes "q \<noteq> 0"
  shows "2 powi (ilog2 q) \<le> \<bar>q\<bar>" and "\<bar>q\<bar> < 2 powi (ilog2 q + 1)"
proof -
  obtain n d where nd: "quotient_of \<bar>q\<bar> = (n, d)"
    by (cases "quotient_of \<bar>q\<bar>")
  then have d: "0 < d" and q: "\<bar>q\<bar> = of_int n / of_int d"
    by (auto dest: quotient_of_denom_pos quotient_of_div)
  from assms have "0 < \<bar>q\<bar>"
    by simp
  with q d have n: "0 < n"
    by (simp add: zero_less_divide_iff)
  define k where "k = bitlen n - bitlen d"
  have il: "ilog2 q = (if 2 powi k \<le> \<bar>q\<bar> then k else k - 1)"
    by (simp add: ilog2_def nd k_def Let_def)
  from bitlen_bounds [OF n] have ln: "(2::rat) ^ nat (bitlen n - 1) \<le> of_int n"
    and un: "of_int n < (2::rat) ^ nat (bitlen n)"
    by (metis of_int_le_iff of_int_numeral of_int_power,
        metis of_int_less_iff of_int_numeral of_int_power)
  from bitlen_bounds [OF d] have ld: "(2::rat) ^ nat (bitlen d - 1) \<le> of_int d"
    and ud: "of_int d < (2::rat) ^ nat (bitlen d)"
    by (metis of_int_le_iff of_int_numeral of_int_power,
        metis of_int_less_iff of_int_numeral of_int_power)
  from n have bn: "1 \<le> bitlen n"
    by (auto simp: bitlen_alt_def)
  from d have bd: "1 \<le> bitlen d"
    by (auto simp: bitlen_alt_def)
  have lower: "(2::rat) powi (k - 1) \<le> \<bar>q\<bar>"
  proof -
    have "k - 1 = (bitlen n - 1) - bitlen d"
      by (simp add: k_def)
    then have "(2::rat) powi (k - 1) = 2 powi ((bitlen n - 1) - bitlen d)"
      by (rule arg_cong)
    also have "\<dots> = 2 powi (bitlen n - 1) / 2 powi (bitlen d)"
      by (rule power_int_diff) simp
    also have "\<dots> = 2 ^ nat (bitlen n - 1) / 2 ^ nat (bitlen d)"
      using bn bd by (simp add: power_int_nonneg_exp)
    also have "\<dots> \<le> of_int n / of_int d"
      using ln ud d n by (intro frac_le) simp_all
    finally show ?thesis by (simp add: q)
  qed
  have upper: "\<bar>q\<bar> < (2::rat) powi (k + 1)"
  proof -
    have "of_int n / of_int d < (2::rat) ^ nat (bitlen n) / 2 ^ nat (bitlen d - 1)"
      using un ld d n by (intro frac_less) simp_all
    also have "\<dots> = 2 powi (bitlen n) / 2 powi (bitlen d - 1)"
      using bn bd by (simp add: power_int_nonneg_exp)
    also have "\<dots> = 2 powi (bitlen n - (bitlen d - 1))"
      by (rule power_int_diff [symmetric]) simp
    also have "bitlen n - (bitlen d - 1) = k + 1"
      by (simp add: k_def)
    finally show ?thesis by (simp add: q)
  qed
  show "2 powi (ilog2 q) \<le> \<bar>q\<bar>"
    using lower by (simp add: il)
  show "\<bar>q\<bar> < 2 powi (ilog2 q + 1)"
  proof (cases "2 powi k \<le> \<bar>q\<bar>")
    case True
    with upper show ?thesis by (simp add: il)
  next
    case False
    then show ?thesis by (simp add: il)
  qed
qed

lemma powi_less_exponent:
  assumes "(2::rat) powi a < 2 powi b"
  shows "a < b"
  using assms power_int_increasing [of b a "2::rat"] by (cases "a < b") simp_all


lemma mantissa_bound:
  assumes "q \<noteq> 0" and "ilog2 q - 52 \<le> e"
  shows "\<bar>roundHalfEven (q * 2 powi (- e))\<bar> \<le> 2 ^ 53"
proof -
  let ?y = "q * 2 powi (- e)"
  have "\<bar>?y\<bar> = \<bar>q\<bar> * 2 powi (- e)"
    by (simp add: abs_mult power_int_abs)
  also have "\<dots> < 2 powi (ilog2 q + 1) * 2 powi (- e)"
    using ilog2_bounds(2) [OF assms(1)] by (simp add: mult_strict_right_mono)
  also have "\<dots> = 2 powi (ilog2 q + 1 - e)"
    using power_int_add [of "2::rat" "ilog2 q + 1" "- e"] by simp
  also have "\<dots> \<le> 2 powi 53"
    using assms(2) by (intro power_int_increasing) simp_all
  finally have y: "\<bar>?y\<bar> < 2 ^ 53"
    by simp
  then have "?y < of_int (2 ^ 53)" and "of_int (- (2 ^ 53)) \<le> ?y"
    by (simp_all add: abs_less_iff)
  then have "roundHalfEven ?y \<le> 2 ^ 53" and "- (2 ^ 53) \<le> roundHalfEven ?y"
    by (simp_all add: roundHalfEven_le roundHalfEven_ge less_imp_le del: of_int_power of_int_minus)
  then show ?thesis
    by (simp add: abs_le_iff)
qed

text \<open>The rounding without the shortcut on the exponent.\<close>

lemma binary64_overflow_rule:
  "binary64 q =
     (if q = 0 then Finite 0
      else let e = max (ilog2 q - 52) (- 1074);
               r = of_int (roundHalfEven (q * 2 powi (- e))) * 2 powi e
           in if 2 ^ 1024 \<le> r then PosInfinity
              else if r \<le> - (2 ^ 1024) then NegInfinity
              else Finite r)"
proof (cases "q = 0")
  case True
  then show ?thesis by (simp add: binary64_def)
next
  case False
  define e where "e = max (ilog2 q - 52) (- 1074)"
  define r :: rat where "r = of_int (roundHalfEven (q * 2 powi (- e))) * 2 powi e"
  have "\<bar>r\<bar> < 2 ^ 1024" if "e < 971"
  proof -
    have "\<bar>r\<bar> = of_int \<bar>roundHalfEven (q * 2 powi (- e))\<bar> * 2 powi e"
      by (simp add: r_def abs_mult power_int_abs)
    also have "\<dots> \<le> 2 ^ 53 * 2 powi e"
    proof -
      have "(of_int \<bar>roundHalfEven (q * 2 powi (- e))\<bar> :: rat) \<le> of_int (2 ^ 53)"
        using mantissa_bound [OF False, of e]
        by (simp only: of_int_le_iff) (simp add: e_def)
      then show ?thesis
        by (simp add: mult_right_mono)
    qed
    also have "\<dots> = 2 powi (53 + e)"
      by (simp add: power_int_add)
    also have "\<dots> < 2 powi 1024"
      using that by (intro power_int_strict_increasing) simp_all
    finally show ?thesis by simp
  qed
  then have "\<not> 2 ^ 1024 \<le> r \<and> \<not> r \<le> - (2 ^ 1024)" if "e < 971"
    using that by (auto simp: abs_less_iff)
  with False show ?thesis
    by (auto simp: binary64_def Let_def e_def [symmetric] r_def [symmetric])
qed


lemma binary64_fixes:
  assumes "\<bar>m\<bar> < 2 ^ 53" and "- 1074 \<le> k" and "\<bar>of_int m * 2 powi k :: rat\<bar> < 2 ^ 1024"
  shows "binary64 (of_int m * 2 powi k) = Finite (of_int m * 2 powi k)"
proof (cases "m = 0")
  case True
  then show ?thesis by (simp add: binary64_def)
next
  case False
  define q :: rat where "q = of_int m * 2 powi k"
  have q0: "q \<noteq> 0"
    using False by (simp add: q_def)
  have "\<bar>q\<bar> = of_int \<bar>m\<bar> * 2 powi k"
    by (simp add: q_def abs_mult power_int_abs)
  also have "\<dots> < 2 ^ 53 * 2 powi k"
  proof -
    from assms(1) have "(of_int \<bar>m\<bar> :: rat) < 2 ^ 53"
      by (metis of_int_less_iff of_int_numeral of_int_power)
    then show ?thesis
      by (simp add: mult_strict_right_mono)
  qed
  also have "\<dots> = 2 powi (53 + k)"
    by (simp add: power_int_add)
  finally have "2 powi (ilog2 q) < (2::rat) powi (53 + k)"
    using ilog2_bounds(1) [OF q0] by simp
  then have "ilog2 q < 53 + k"
    by (rule powi_less_exponent)
  define e where "e = max (ilog2 q - 52) (- 1074)"
  have e: "0 \<le> k - e"
    using \<open>ilog2 q < 53 + k\<close> assms(2) by (simp add: e_def)
  define j where "j = nat (k - e)"
  have p: "(2::rat) powi k * 2 powi (- e) = 2 powi (k - e)"
    using power_int_add [of "2::rat" k "- e"] by simp
  have p': "(2::rat) powi (k - e) * 2 powi e = 2 powi k"
    using power_int_add [of "2::rat" "k - e" e] by simp
  have pj: "(2::rat) powi (k - e) = 2 ^ j"
    using e by (simp add: j_def power_int_nonneg_exp)
  have "q * 2 powi (- e) = of_int m * (2 powi k * 2 powi (- e))"
    by (simp add: q_def)
  also have "\<dots> = of_int (m * 2 ^ j)"
    by (simp add: p pj)
  finally have r: "roundHalfEven (q * 2 powi (- e)) = m * 2 ^ j"
    by (simp only: roundHalfEven_of_int)
  have "of_int (m * 2 ^ j) * 2 powi e = of_int m * ((2::rat) powi (k - e) * 2 powi e)"
    by (simp add: pj)
  also have "\<dots> = q"
    by (simp add: p' q_def)
  finally have "of_int (roundHalfEven (q * 2 powi (- e))) * 2 powi e = q"
    by (simp only: r)
  moreover from assms(3) have "\<not> 2 ^ 1024 \<le> q" and "\<not> q \<le> - (2 ^ 1024)"
    by (simp_all add: q_def abs_less_iff)
  ultimately have "binary64 q = Finite q"
    using q0 by (simp add: binary64_overflow_rule Let_def e_def [symmetric])
  then show ?thesis
    by (simp add: q_def)
qed

lemma binary64_overflows:
  assumes "2 ^ 1024 \<le> q"
  shows "binary64 q = PosInfinity"
proof -
  have q0: "q \<noteq> 0" and qp: "\<bar>q\<bar> = q"
    using assms by (auto simp: abs_if not_less intro: order_trans [of 0 "2 ^ 1024" q])
  have "(2::rat) powi 1024 < 2 powi (ilog2 q + 1)"
    using ilog2_bounds(2) [OF q0] assms qp by simp
  then have l: "1024 \<le> ilog2 q"
    using powi_less_exponent [of 1024 "ilog2 q + 1"] by simp
  define e where "e = ilog2 q - 52"
  have em: "max (ilog2 q - 52) (- 1074) = e"
    using l by (simp add: e_def)
  have "(2::rat) powi (ilog2 q) * 2 powi (- e) = 2 powi (ilog2 q - e)"
    using power_int_add [of "2::rat" "ilog2 q" "- e"] by simp
  also have "\<dots> = of_int (2 ^ 52)"
    by (simp add: e_def)
  finally have "of_int (2 ^ 52) \<le> q * 2 powi (- e)"
    using ilog2_bounds(1) [OF q0] qp mult_right_mono [of "2 powi (ilog2 q)" q "2 powi (- e)"]
    by simp
  then have "2 ^ 52 \<le> roundHalfEven (q * 2 powi (- e))"
    by (rule roundHalfEven_ge)
  then have "(of_int (2 ^ 52) :: rat) \<le> of_int (roundHalfEven (q * 2 powi (- e)))"
    by (simp only: of_int_le_iff)
  then have c: "of_int (2 ^ 52) * (2::rat) powi e \<le> of_int (roundHalfEven (q * 2 powi (- e))) * 2 powi e"
    by (rule mult_right_mono) simp
  have "(2::rat) powi 1024 \<le> 2 powi (ilog2 q)"
    using l by (intro power_int_increasing) simp_all
  also have "\<dots> = of_int (2 ^ 52) * (2::rat) powi e"
    using power_int_add [of "2::rat" 52 e] by (simp add: e_def)
  also note c
  finally have "2 ^ 1024 \<le> of_int (roundHalfEven (q * 2 powi (- e))) * (2::rat) powi e"
    by simp
  then show ?thesis
    using q0 by (simp add: binary64_overflow_rule Let_def em)
qed

lemma ilog2_minus: "ilog2 (- q) = ilog2 q"
  by (simp add: ilog2_def)

lemma roundHalfEven_minus: "roundHalfEven (- y) = - roundHalfEven y"
proof (cases "y = of_int \<lfloor>y\<rfloor>")
  case True
  then obtain j where "y = of_int j" ..
  then show ?thesis
    by (simp add: roundHalfEven_of_int flip: of_int_minus)
next
  case False
  then have c: "\<lceil>y\<rceil> = \<lfloor>y\<rfloor> + 1"
    by (metis ceiling_altdef)
  have f: "\<lfloor>- y\<rfloor> = - \<lfloor>y\<rfloor> - 1"
    using c by (simp add: floor_minus)
  have d: "0 < y - of_int \<lfloor>y\<rfloor>"
    using False by (simp add: less_le)
  show ?thesis
    using d by (auto simp: roundHalfEven_def Let_def f)
qed


lemma binary64_minus: "binary64 (- q) = js_negate (binary64 q)"
proof (cases "q = 0")
  case True
  then show ?thesis by (simp add: binary64_def)
next
  case False
  define e where "e = max (ilog2 q - 52) (- 1074)"
  define r :: rat where "r = of_int (roundHalfEven (q * 2 powi (- e))) * 2 powi e"
  have "of_int (roundHalfEven (- q * 2 powi (- e))) * 2 powi e = - r"
    using roundHalfEven_minus [of "q * 2 powi (- e)"] by (simp add: r_def)
  with False show ?thesis
    by (simp add: binary64_overflow_rule ilog2_minus Let_def e_def [symmetric] r_def [symmetric])
qed

lemma binary64_overflows_negative:
  assumes "q \<le> - (2 ^ 1024)"
  shows "binary64 q = NegInfinity"
proof -
  from assms have "2 ^ 1024 \<le> - q"
    by simp
  then have "binary64 (- q) = PosInfinity"
    by (rule binary64_overflows)
  then show ?thesis
    by (cases "binary64 q") (simp_all add: binary64_minus)
qed

lemma binary64_huge:
  "binary64 (2 ^ 1023) = Finite (2 ^ 1023)"
  "binary64 (- (2 ^ 1023)) = Finite (- (2 ^ 1023))"
  "binary64 (3 * 2 ^ 1023) = PosInfinity"
  "binary64 (- (3 * 2 ^ 1023)) = NegInfinity"
proof -
  show a: "binary64 (2 ^ 1023) = Finite (2 ^ 1023)"
    using binary64_fixes [of 1 1023] by simp
  show "binary64 (- (2 ^ 1023)) = Finite (- (2 ^ 1023))"
    by (simp only: binary64_minus a js_negate.simps)
  show b: "binary64 (3 * 2 ^ 1023) = PosInfinity"
    by (rule binary64_overflows) simp
  show "binary64 (- (3 * 2 ^ 1023)) = NegInfinity"
    by (simp only: binary64_minus b js_negate.simps)
qed

text \<open>
  \<^verbatim>\<open>bezierPoint(0, {x: 0, y: 0}, {x: 2**1023, y: 0}, {x: 0, y: 0}, {x: 0, y: 0})\<close>:
  \<open>cX\<close> overflows to \<^verbatim>\<open>Infinity\<close>, \<open>bX\<close> is \<^verbatim>\<open>-Infinity\<close>, \<open>aX\<close> is \<^verbatim>\<open>NaN\<close>, and so
  is \<open>x\<close>.
\<close>

lemma bezierPoint_overflow:
  "bezierPoint binary64Arith (Finite 0) (finitePoint 0 0) (finitePoint (2 ^ 1023) 0)
     (finitePoint 0 0) (finitePoint 0 0) = \<lparr>px = NaN, py = Finite 0\<rparr>"
  using binary64_huge
  by (simp add: bezierPoint_def finitePoint_def binary64Arith_def js_sub_def Math_pow_def binary64_zero)

lemma isFinite_iff: "isFinite v \<longleftrightarrow> (\<exists>a. v = Finite a)"
  by (cases v) simp_all

lemma bezierPoint_coefficients:
  "bezierPoint ar t p0 p1 p2 p3 =
     (case coefficients ar (px p0) (px p1) (px p2) (px p3) of
        (aX, bX, cX) \<Rightarrow>
          (case coefficients ar (py p0) (py p1) (py p2) (py p3) of
             (aY, bY, cY) \<Rightarrow>
               \<lparr>px = js_add ar
                       (js_add ar
                          (js_add ar (js_mul ar aX (Math_pow ar t 3)) (js_mul ar bX (Math_pow ar t 2)))
                          (js_mul ar cX t))
                       (px p0),
                py = js_add ar
                       (js_add ar
                          (js_add ar (js_mul ar aY (Math_pow ar t 3)) (js_mul ar bY (Math_pow ar t 2)))
                          (js_mul ar cY t))
                       (py p0)\<rparr>))"
  by (simp add: bezierPoint_def coefficients_def Let_def)

lemma sample_coefficients_finite:
  "finiteCoefficients binary64Arith (finitePoint (1 / 2) (1 / 2)) (finitePoint 0 0) (finitePoint 1 1)
     (finitePoint (3602879701896397 / 2 ^ 55) (3602879701896397 / 2 ^ 55))"
  by code_simp

text \<open>
  C4, as stated, fails at \<open>t = 1\<close> in the arithmetic of JavaScript: the coefficients are
  rounded. With \<open>p0 = p1 = (0, 0)\<close>, \<open>p2 = (1, 1)\<close> and \<open>p3 = (0.1, 0.1)\<close>, where \<^verbatim>\<open>0.1\<close> is
  the binary64 number \<open>3602879701896397 / 2 ^ 55\<close>, the coefficient \<open>a = 0.1 - 3\<close> is rounded
  and \<open>a + 3\<close> is \<^verbatim>\<open>0.10000000000000009\<close>, three units in the last place above \<open>p3\<close>.
\<close>

theorem bezierPoint_at_one_counterexample:
  "bezierPoint binary64Arith (Finite 1) (finitePoint 0 0) (finitePoint 0 0) (finitePoint 1 1)
       (finitePoint (3602879701896397 / 2 ^ 55) (3602879701896397 / 2 ^ 55))
     = finitePoint (3602879701896400 / 2 ^ 55) (3602879701896400 / 2 ^ 55)
   \<and> bezierPoint binary64Arith (Finite 1) (finitePoint 0 0) (finitePoint 0 0) (finitePoint 1 1)
       (finitePoint (3602879701896397 / 2 ^ 55) (3602879701896397 / 2 ^ 55))
     \<noteq> finitePoint (3602879701896397 / 2 ^ 55) (3602879701896397 / 2 ^ 55)"
  by code_simp

text \<open>
  C4, amended. At \<open>t = 0\<close> the evaluator returns exactly \<open>p0\<close> (up to the sign of a zero),
  in every arithmetic whose rounding keeps zero and the two finite coordinates of \<open>p0\<close>, as
  binary64 rounding keeps every binary64 number (\<open>binary64_fixes\<close>), provided that none of
  the six coefficients has overflowed or is \<^verbatim>\<open>NaN\<close>; without that condition the result can
  be \<^verbatim>\<open>NaN\<close> (\<open>bezierPoint_overflow\<close>). At \<open>t = 1\<close> the evaluator returns exactly \<open>p3\<close> in
  exact arithmetic on finite control points; in binary64 arithmetic the result can be off
  by the rounding of the coefficients.
\<close>

theorem bezierPoint_endpoints:
  "(rnd ar 0 = Finite 0 \<and> rnd ar x0 = Finite x0 \<and> rnd ar y0 = Finite y0
      \<and> finiteCoefficients ar (finitePoint x0 y0) p1 p2 p3
      \<longrightarrow> bezierPoint ar (Finite 0) (finitePoint x0 y0) p1 p2 p3 = finitePoint x0 y0)
   \<and> bezierPoint exactArith (Finite 1) (finitePoint x0 y0) (finitePoint x1 y1) (finitePoint x2 y2)
         (finitePoint x3 y3)
       = finitePoint x3 y3"
proof (intro conjI impI)
  assume h: "rnd ar 0 = Finite 0 \<and> rnd ar x0 = Finite x0 \<and> rnd ar y0 = Finite y0
      \<and> finiteCoefficients ar (finitePoint x0 y0) p1 p2 p3"
  then obtain aX bX cX aY bY cY where
    "coefficients ar (Finite x0) (px p1) (px p2) (px p3) = (Finite aX, Finite bX, Finite cX)"
    "coefficients ar (Finite y0) (py p1) (py p2) (py p3) = (Finite aY, Finite bY, Finite cY)"
    by (auto simp: finiteCoefficients_def finitePoint_def isFinite_iff split: prod.splits)
  with h show "bezierPoint ar (Finite 0) (finitePoint x0 y0) p1 p2 p3 = finitePoint x0 y0"
    by (simp add: bezierPoint_coefficients finitePoint_def Math_pow_def)
next
  show "bezierPoint exactArith (Finite 1) (finitePoint x0 y0) (finitePoint x1 y1) (finitePoint x2 y2)
         (finitePoint x3 y3)
       = finitePoint x3 y3"
    by (simp add: bezierPoint_def finitePoint_def exactArith_def js_sub_def Math_pow_def Let_def)
qed

theorem bezierPoint_endpoints_witness:
  "rnd binary64Arith 0 = Finite 0 \<and> rnd binary64Arith (1 / 2) = Finite (1 / 2)
   \<and> finiteCoefficients binary64Arith (finitePoint (1 / 2) (1 / 2)) (finitePoint 0 0) (finitePoint 1 1)
         (finitePoint (3602879701896397 / 2 ^ 55) (3602879701896397 / 2 ^ 55))
   \<and> bezierPoint binary64Arith (Finite 0) (finitePoint (1 / 2) (1 / 2)) (finitePoint 0 0)
         (finitePoint 1 1) (finitePoint (3602879701896397 / 2 ^ 55) (3602879701896397 / 2 ^ 55))
       = finitePoint (1 / 2) (1 / 2)
   \<and> bezierPoint exactArith (Finite 1) (finitePoint (1 / 2) (1 / 2)) (finitePoint 0 0)
         (finitePoint 1 1) (finitePoint (3602879701896397 / 2 ^ 55) (3602879701896397 / 2 ^ 55))
       = finitePoint (3602879701896397 / 2 ^ 55) (3602879701896397 / 2 ^ 55)"
proof -
  have r: "rnd binary64Arith 0 = Finite 0" "rnd binary64Arith (1 / 2) = Finite (1 / 2)"
    by (simp_all add: binary64Arith_def binary64_zero binary64_half)
  from bezierPoint_endpoints [where ar = binary64Arith and ?x0.0 = "1 / 2" and ?y0.0 = "1 / 2"
      and ?p1.0 = "finitePoint 0 0" and ?p2.0 = "finitePoint 1 1"
      and ?p3.0 = "finitePoint (3602879701896397 / 2 ^ 55) (3602879701896397 / 2 ^ 55)"
      and ?x1.0 = 0 and ?y1.0 = 0 and ?x2.0 = 1 and ?y2.0 = 1
      and ?x3.0 = "3602879701896397 / 2 ^ 55" and ?y3.0 = "3602879701896397 / 2 ^ 55"]
    r sample_coefficients_finite
  show ?thesis
    by blast
qed

text \<open>
  C5, as stated, fails in the arithmetic of JavaScript: the two forms are equal as
  polynomials, not as binary64 computations. With \<open>p0 = p1 = (0, 0)\<close>, \<open>p2 = (0.2, 0.2)\<close>,
  \<open>p3 = (0.1, 0.1)\<close> and \<open>t = 1\<close> the Bernstein form is \<open>p3\<close>, and \<^verbatim>\<open>bezierPoint\<close> returns
  \<^verbatim>\<open>0.09999999999999998\<close> on both axes.
\<close>

theorem bezierPoint_bernstein_counterexample:
  "bezierPoint binary64Arith (Finite 1) (finitePoint 0 0) (finitePoint 0 0)
       (finitePoint (3602879701896397 / 2 ^ 54) (3602879701896397 / 2 ^ 54))
       (finitePoint (3602879701896397 / 2 ^ 55) (3602879701896397 / 2 ^ 55))
     = finitePoint (3602879701896396 / 2 ^ 55) (3602879701896396 / 2 ^ 55)
   \<and> finitePoint
         (bernstein 1 0 0 (3602879701896397 / 2 ^ 54) (3602879701896397 / 2 ^ 55))
         (bernstein 1 0 0 (3602879701896397 / 2 ^ 54) (3602879701896397 / 2 ^ 55))
     = finitePoint (3602879701896397 / 2 ^ 55) (3602879701896397 / 2 ^ 55)
   \<and> bezierPoint binary64Arith (Finite 1) (finitePoint 0 0) (finitePoint 0 0)
       (finitePoint (3602879701896397 / 2 ^ 54) (3602879701896397 / 2 ^ 54))
       (finitePoint (3602879701896397 / 2 ^ 55) (3602879701896397 / 2 ^ 55))
     \<noteq> finitePoint
         (bernstein 1 0 0 (3602879701896397 / 2 ^ 54) (3602879701896397 / 2 ^ 55))
         (bernstein 1 0 0 (3602879701896397 / 2 ^ 54) (3602879701896397 / 2 ^ 55))"
  by code_simp

text \<open>
  C5, amended. In exact arithmetic, for every finite \<open>t\<close> and all finite control points,
  the coefficient expansion evaluated by \<^verbatim>\<open>bezierPoint\<close> is the Bernstein form of the cubic
  Bezier curve, on both axes.
\<close>

theorem bezierPoint_is_bernstein:
  "bezierPoint exactArith (Finite t) (finitePoint x0 y0) (finitePoint x1 y1) (finitePoint x2 y2)
       (finitePoint x3 y3)
     = finitePoint (bernstein t x0 x1 x2 x3) (bernstein t y0 y1 y2 y3)"
  by (simp add: bezierPoint_def finitePoint_def bernstein_def exactArith_def js_sub_def Math_pow_def Let_def
      power2_eq_square power3_eq_cube algebra_simps)

section \<open>The availability state machine\<close>

lemma getAttribute_setAttribute: "getAttribute (setAttribute k v e) k' = (if k' = k then Some v else getAttribute e k')"
  by (simp add: getAttribute_def setAttribute_def update_conv')

lemma getAttribute_removeAttribute: "getAttribute (removeAttribute k e) k' = (if k' = k then None else getAttribute e k')"
  by (simp add: getAttribute_def removeAttribute_def delete_conv')

lemma getAttribute_set_display: "getAttribute (set_display v e) k = getAttribute e k"
  by (simp add: getAttribute_def set_display_def)

lemma style_display_set_display: "style_display (set_display v e) = v"
  by (simp add: set_display_def)

lemma contains_add: "classList_contains (classList_add c e) d \<longleftrightarrow> d = c \<or> classList_contains e d"
  by (auto simp: classList_contains_def classList_add_def)

lemma contains_remove: "classList_contains (classList_remove c e) d \<longleftrightarrow> d \<noteq> c \<and> classList_contains e d"
  by (auto simp: classList_contains_def classList_remove_def)

lemma currentAddToCartButton_update_button:
  "currentAddToCartButton (update_button f w) = map_option f (currentAddToCartButton w)"
  by (simp add: currentAddToCartButton_def update_button_def update_container_def split: option.splits)

lemma update_button_other:
  "stockIndicator (update_button f w) = stockIndicator w"
  "acceleratedCheckoutButtonContainer (update_button f w) = acceleratedCheckoutButtonContainer w"
  by (simp_all add: update_button_def update_container_def)

lemma currentAddToCartButton_fields:
  "currentAddToCartButton (w\<lparr>stockIndicator := si\<rparr>) = currentAddToCartButton w"
  "currentAddToCartButton (w\<lparr>acceleratedCheckoutButtonContainer := ac\<rparr>) = currentAddToCartButton w"
  by (simp_all add: currentAddToCartButton_def)

lemma updateAvailabilityState_unavailable:
  assumes "currentAddToCartButton w = Some b" and "stockIndicator w = Some i" and "unavailable v"
  shows "showsUnavailable (updateAvailabilityState v w)"
  using assms
  by (cases "acceleratedCheckoutButtonContainer w")
    (simp_all add: updateAvailabilityState_def showsUnavailable_def
      currentAddToCartButton_update_button currentAddToCartButton_fields
      getAttribute_setAttribute getAttribute_set_display
      style_display_set_display contains_add contains_remove)

lemma updateAvailabilityState_available:
  assumes "currentAddToCartButton w = Some b" and "stockIndicator w = Some i" and "\<not> unavailable v"
  shows "showsAvailable (updateAvailabilityState v w)"
  using assms
  by (cases "acceleratedCheckoutButtonContainer w")
    (simp_all add: updateAvailabilityState_def showsAvailable_def
      currentAddToCartButton_update_button currentAddToCartButton_fields
      getAttribute_removeAttribute getAttribute_set_display
      style_display_set_display contains_add contains_remove)

lemma show_int_42: "show_int 42 = ''42''"
  by code_simp

lemma samplePage_button: "currentAddToCartButton samplePage = Some emptyElement"
  by (simp add: samplePage_def currentAddToCartButton_def)

lemma samplePage_indicator: "stockIndicator samplePage = Some emptyElement"
  by (simp add: samplePage_def)

text \<open>
  C1. When the purchase button and the stock indicator are both present, the availability
  update leaves the page in the unavailable state (control disabled with display none,
  indicator \<^verbatim>\<open>nonavaible\<close> and not \<^verbatim>\<open>avaible\<close>, accelerated checkout hidden) for an
  absent variant and for a variant with \<^verbatim>\<open>available = false\<close>, and in the available
  state (the inverse of each) for a variant with \<^verbatim>\<open>available = true\<close>.
\<close>

theorem updateAvailabilityState_matches_availability:
  assumes "currentAddToCartButton w \<noteq> None" and "stockIndicator w \<noteq> None"
  shows "((v = None \<or> (\<exists>x. v = Some x \<and> available x = Some False))
            \<longrightarrow> showsUnavailable (updateAvailabilityState v w))
       \<and> ((\<exists>x. v = Some x \<and> available x = Some True)
            \<longrightarrow> showsAvailable (updateAvailabilityState v w))"
proof -
  from assms obtain b i where bi: "currentAddToCartButton w = Some b" "stockIndicator w = Some i"
    by auto
  have "unavailable v" if "v = None \<or> (\<exists>x. v = Some x \<and> available x = Some False)"
    using that by (auto simp: unavailable_def)
  moreover have "\<not> unavailable v" if "\<exists>x. v = Some x \<and> available x = Some True"
    using that by (auto simp: unavailable_def)
  ultimately show ?thesis
    using updateAvailabilityState_unavailable [OF bi] updateAvailabilityState_available [OF bi]
    by blast
qed


theorem updateAvailabilityState_matches_availability_witness:
  "currentAddToCartButton samplePage \<noteq> None \<and> stockIndicator samplePage \<noteq> None
   \<and> showsUnavailable (updateAvailabilityState None samplePage)
   \<and> showsUnavailable (updateAvailabilityState (Some (sampleVariant\<lparr>available := Some False\<rparr>)) samplePage)
   \<and> showsAvailable (updateAvailabilityState (Some sampleVariant) samplePage)"
  using updateAvailabilityState_matches_availability [of samplePage None]
    updateAvailabilityState_matches_availability [of samplePage "Some (sampleVariant\<lparr>available := Some False\<rparr>)"]
    updateAvailabilityState_matches_availability [of samplePage "Some sampleVariant"]
  by (simp add: samplePage_button samplePage_indicator sampleVariant_def)

lemma initializeWithCurrentVariant_found:
  "productJsonScript w = Some text \<Longrightarrow> currentVariant parse text w = Inr v
     \<Longrightarrow> initializeWithCurrentVariant parse w = updateAvailabilityState v w"
  by (simp add: initializeWithCurrentVariant_def)

lemma console_update_button: "console (update_button f w) = console w"
  by (simp add: update_button_def update_container_def)

lemma console_updateAvailabilityState: "console (updateAvailabilityState v w) = console w"
  by (simp add: updateAvailabilityState_def console_update_button)

lemma samplePage_script: "productJsonScript samplePage = Some noVariantsJson"
  by (simp add: samplePage_def)

lemma samplePage_no_match: "currentVariant sampleParse noVariantsJson samplePage = Inr None"
  by (simp add: currentVariant_def sampleParse_def)

lemma samplePage_not_unavailable: "\<not> showsUnavailable samplePage"
  by (simp add: showsUnavailable_def samplePage_button getAttribute_def emptyElement_def)

lemma updateAvailabilityState_no_indicator:
  "stockIndicator w = None \<Longrightarrow> updateAvailabilityState v w = w"
  by (simp add: updateAvailabilityState_def)

text \<open>
  On the sample page with the product data of variant 42, whose id prints as the selected
  \<^verbatim>\<open>42\<close>, the initialisation finds the variant and shows it available.
\<close>

lemma samplePage_match:
  "currentVariant sampleParse oneVariantJson (samplePage\<lparr>productJsonScript := Some oneVariantJson\<rparr>)
     = Inr (Some sampleVariant)"
  by (simp add: currentVariant_def sampleParse_def oneVariantJson_def noVariantsJson_def
      sampleVariant_def show_int_42 samplePage_def)

lemma samplePage_initialized:
  "showsAvailable
     (initializeWithCurrentVariant sampleParse (samplePage\<lparr>productJsonScript := Some oneVariantJson\<rparr>))"
proof -
  let ?p = "samplePage\<lparr>productJsonScript := Some oneVariantJson\<rparr>"
  have s: "productJsonScript ?p = Some oneVariantJson"
    by simp
  have b: "currentAddToCartButton ?p = Some emptyElement"
    by (simp add: currentAddToCartButton_def samplePage_def)
  have i: "stockIndicator ?p = Some emptyElement"
    by (simp add: samplePage_def)
  show ?thesis
    unfolding initializeWithCurrentVariant_found [OF s samplePage_match]
    by (rule updateAvailabilityState_available [OF b i]) (simp add: unavailable_def sampleVariant_def)
qed

text \<open>
  C2, as stated, fails where the product data parses but holds no variant with the
  selected id: \<^verbatim>\<open>find\<close> returns \<^verbatim>\<open>undefined\<close>, the availability update receives an
  absent variant and moves the page to the unavailable state, and nothing is logged.
\<close>

theorem initializeWithCurrentVariant_no_match_counterexample:
  "productJsonScript samplePage = Some noVariantsJson
   \<and> currentVariant sampleParse noVariantsJson samplePage = Inr None
   \<and> initializeWithCurrentVariant sampleParse samplePage \<noteq> samplePage
   \<and> showsUnavailable (initializeWithCurrentVariant sampleParse samplePage)
   \<and> console (initializeWithCurrentVariant sampleParse samplePage) = console samplePage"
proof -
  have eq: "initializeWithCurrentVariant sampleParse samplePage = updateAvailabilityState None samplePage"
    by (rule initializeWithCurrentVariant_found [OF samplePage_script samplePage_no_match])
  have un: "showsUnavailable (updateAvailabilityState None samplePage)"
    by (rule updateAvailabilityState_unavailable [OF samplePage_button samplePage_indicator])
      (simp add: unavailable_def)
  from un samplePage_not_unavailable
  have "updateAvailabilityState None samplePage \<noteq> samplePage" by auto
  with eq un show ?thesis
    by (simp add: samplePage_script samplePage_no_match console_updateAvailabilityState)
qed

text \<open>
  C2, amended. Without the embedded script the page stays as it is and a warning is
  logged; when its text fails to parse, or reading the variants throws, the page stays as
  it is and the error is logged. Without a stock indicator (or without a purchase button)
  the availability update changes nothing and logs nothing. When the data parses but has
  no variant with the selected id, the update runs with an absent variant.
\<close>

theorem initializeWithCurrentVariant_failure_semantics:
  "(productJsonScript w = None
      \<longrightarrow> initializeWithCurrentVariant parse w = w\<lparr>console := console w @ [ProductJsonMissing]\<rparr>)
   \<and> (productJsonScript w = Some content \<and> parse content = Inl e
      \<longrightarrow> initializeWithCurrentVariant parse w = w\<lparr>console := console w @ [ProductJsonError e]\<rparr>)
   \<and> (productJsonScript w = Some content \<and> currentVariant parse content w = Inl e
      \<longrightarrow> initializeWithCurrentVariant parse w = w\<lparr>console := console w @ [ProductJsonError e]\<rparr>)
   \<and> (stockIndicator w = None \<or> currentAddToCartButton w = None
      \<longrightarrow> updateAvailabilityState v w = w)
   \<and> (productJsonScript w = Some content \<and> currentVariant parse content w = Inr None
      \<longrightarrow> initializeWithCurrentVariant parse w = updateAvailabilityState None w)"
  by (auto simp: initializeWithCurrentVariant_def currentVariant_def updateAvailabilityState_def)


theorem initializeWithCurrentVariant_failure_semantics_witness:
  "initializeWithCurrentVariant sampleParse (samplePage\<lparr>productJsonScript := None\<rparr>)
     = samplePage\<lparr>productJsonScript := None, console := [ProductJsonMissing]\<rparr>
   \<and> initializeWithCurrentVariant sampleParse (samplePage\<lparr>productJsonScript := Some ''{''\<rparr>)
     = samplePage\<lparr>productJsonScript := Some ''{'', console := [ProductJsonError SyntaxError]\<rparr>
   \<and> updateAvailabilityState None (samplePage\<lparr>stockIndicator := None\<rparr>)
     = samplePage\<lparr>stockIndicator := None\<rparr>
   \<and> initializeWithCurrentVariant sampleParse samplePage = updateAvailabilityState None samplePage"
  using initializeWithCurrentVariant_failure_semantics
      [where w = "samplePage\<lparr>productJsonScript := None\<rparr>" and parse = sampleParse]
    initializeWithCurrentVariant_failure_semantics
      [where w = "samplePage\<lparr>productJsonScript := Some ''{''\<rparr>" and content = "''{''"
         and parse = sampleParse and e = SyntaxError]
    initializeWithCurrentVariant_failure_semantics
      [where w = "samplePage\<lparr>stockIndicator := None\<rparr>" and v = None]
    initializeWithCurrentVariant_failure_semantics
      [where w = samplePage and content = noVariantsJson and parse = sampleParse]
    samplePage_script samplePage_no_match
  by (simp add: sampleParse_def noVariantsJson_def oneVariantJson_def samplePage_def)

section \<open>Submitting the form\<close>

lemma clearIfSet_fields:
  "addToCartButtonContainer (clearIfSet h w) = addToCartButtonContainer w"
  "form (clearIfSet h w) = form w"
  "fetches (clearIfSet h w) = fetches w"
  "dispatched (clearIfSet h w) = dispatched w"
  "console (clearIfSet h w) = console w"
  "liveRegion_textContent (clearIfSet h w) = liveRegion_textContent w"
  "addToCartTextError (clearIfSet h w) = addToCartTextError w"
  "nextTimerId (clearIfSet h w) = nextTimerId w"
  by (simp_all add: clearIfSet_def clearTimeout_def split: option.splits)

lemma currentAddToCartButton_clearIfSet:
  "currentAddToCartButton (clearIfSet h w) = currentAddToCartButton w"
  by (simp add: currentAddToCartButton_def clearIfSet_fields)

text \<open>
  C3. When the purchase button's \<^verbatim>\<open>disabled\<close> attribute reads \<^verbatim>\<open>true\<close>,
  \<^verbatim>\<open>handleSubmit\<close> returns without throwing after it has cleared the pending error timer:
  no request is added, nothing is dispatched or logged, and the live region and the inline
  error element are as they were.
\<close>

theorem handleSubmit_refused_when_disabled:
  assumes "currentAddToCartButton w = Some b" and "getAttribute b ''disabled'' = Some ''true''"
  shows "handleSubmit w = (None, clearIfSet (timeout_handle w) w)
       \<and> fetches (snd (handleSubmit w)) = fetches w
       \<and> dispatched (snd (handleSubmit w)) = dispatched w
       \<and> console (snd (handleSubmit w)) = console w
       \<and> liveRegion_textContent (snd (handleSubmit w)) = liveRegion_textContent w
       \<and> addToCartTextError (snd (handleSubmit w)) = addToCartTextError w"
  using assms
  by (simp add: handleSubmit_def Let_def currentAddToCartButton_clearIfSet clearIfSet_fields)

lemma disabledPage_button:
  "currentAddToCartButton disabledPage
     = Some ((set_display ''none'' \<circ> setAttribute ''disabled'' ''true'') emptyElement)"
  by (simp add: disabledPage_def updateAvailabilityState_def samplePage_button samplePage_indicator
      unavailable_def currentAddToCartButton_fields currentAddToCartButton_update_button)

lemma disabledPage_disabled:
  "getAttribute ((set_display ''none'' \<circ> setAttribute ''disabled'' ''true'') emptyElement) ''disabled''
     = Some ''true''"
  by (simp add: getAttribute_setAttribute getAttribute_set_display)

lemma updateAvailabilityState_emitted:
  "fetches (updateAvailabilityState v w) = fetches w"
  "dispatched (updateAvailabilityState v w) = dispatched w"
  by (simp_all add: updateAvailabilityState_def update_button_def update_container_def)

lemma samplePage_emitted:
  "fetches samplePage = []" "dispatched samplePage = []" "console samplePage = []"
  by (simp_all add: samplePage_def)

lemma samplePage_submit:
  "handleSubmit samplePage
     = (None, samplePage\<lparr>fetches :=
          [\<lparr>url = ''/cart/add.js'',
            body = [(''id'', ''42''), (''quantity'', ''1''), (''sections'', ''cart-drawer'')]\<rparr>]\<rparr>)"
  by (simp add: samplePage_def handleSubmit_def currentAddToCartButton_def clearIfSet_def
      emptyElement_def getAttribute_def)

theorem handleSubmit_refused_when_disabled_witness:
  "currentAddToCartButton disabledPage
     = Some ((set_display ''none'' \<circ> setAttribute ''disabled'' ''true'') emptyElement)
   \<and> getAttribute ((set_display ''none'' \<circ> setAttribute ''disabled'' ''true'') emptyElement) ''disabled''
     = Some ''true''
   \<and> fst (handleSubmit disabledPage) = None
   \<and> fetches (snd (handleSubmit disabledPage)) = []
   \<and> dispatched (snd (handleSubmit disabledPage)) = []
   \<and> console (snd (handleSubmit disabledPage)) = []"
proof -
  have emitted: "fetches disabledPage = []" "dispatched disabledPage = []" "console disabledPage = []"
    by (simp_all add: disabledPage_def updateAvailabilityState_emitted
        console_updateAvailabilityState samplePage_emitted)
  from handleSubmit_refused_when_disabled [OF disabledPage_button disabledPage_disabled]
    disabledPage_disabled
  show ?thesis
    by (simp add: disabledPage_button emitted clearIfSet_fields)
qed

section \<open>The variant-change notification\<close>







lemma samplePage_productId: "dataset_productId samplePage = Some ''7''"
  by (simp add: samplePage_def)





section \<open>The response to a submit\<close>

lemma setTimeout_eq:
  "setTimeout cb d w =
     (nextTimerId w,
      w\<lparr>timers := timers w @ [\<lparr>timer_id = nextTimerId w, due = now w + d, callback = cb\<rparr>],
        nextTimerId := Suc (nextTimerId w)\<rparr>)"
  by (simp add: setTimeout_def)

lemma classList_writeMessage: "classList (writeMessage m e) = classList e"
  by (simp add: writeMessage_def)

lemma contains_writeMessage: "classList_contains (writeMessage m e) c = classList_contains e c"
  by (simp add: classList_contains_def classList_writeMessage)

lemma childNodes_writeMessage:
  "childNodes (writeMessage m e)
     = (if 2 < length (childNodes e) then (childNodes e)[2 := m] else childNodes e @ [m])"
  by (simp add: writeMessage_def)

lemma childNodes_classList_remove: "childNodes (classList_remove c e) = childNodes e"
  by (simp add: classList_remove_def)

lemma settle_Json:
  "settle fd (Json r) w =
     (case onResponse fd r w of
        (None, w1) \<Rightarrow> w1\<lparr>measured := Suc (measured w1)\<rparr>
      | (Some e, w1) \<Rightarrow> w1\<lparr>console := console w1 @ [PromiseRejected e], measured := Suc (measured w1)\<rparr>)"
  by (simp add: settle_def Let_def split: prod.splits option.splits)

lemma onResponse_error_no_element:
  "truthy (status r) \<Longrightarrow> addToCartTextError w = None
     \<Longrightarrow> onResponse fd r w = (None, dispatchEvent (CartErrorEvent (component_id w) (message r)) w)"
  by (simp add: onResponse_def Let_def dispatchEvent_def)

lemma onResponse_error_element:
  "truthy (status r) \<Longrightarrow> addToCartTextError w = Some e
     \<Longrightarrow> onResponse fd r w =
        (None,
         w\<lparr>dispatched := dispatched w @
              [CartErrorEvent (component_id w) (message r),
               CartAddEvent (component_id w)
                 \<lparr>didError = True, source = ''product-form-component'',
                  itemCount = formData_get fd ''quantity'',
                  detail_productId = dataset_productId w, sections = None\<rparr>],
           addToCartTextError := Some (writeMessage (message r) (classList_remove ''hidden'' e)),
           liveRegion_textContent := message r,
           timers := timers w @ [\<lparr>timer_id = nextTimerId w, due = now w + 10000, callback = ErrorClear\<rparr>],
           nextTimerId := Suc (nextTimerId w),
           timeout_handle := Some (nextTimerId w)\<rparr>)"
  by (simp add: onResponse_def Let_def dispatchEvent_def setTimeout_eq setLiveRegionText_def)

text \<open>
  C6, as stated, fails on a page without the inline error element (the ref is optional):
  the handler returns right after the cart-error notification, so the live region is not
  set, no timer is armed and no cart-add notification is emitted.
\<close>

theorem settle_error_without_element_counterexample:
  "truthy (status soldOut)
   \<and> liveRegion_textContent
        (settle sampleFormData (Json soldOut) (samplePage\<lparr>addToCartTextError := None\<rparr>)) = []
   \<and> timers (settle sampleFormData (Json soldOut) (samplePage\<lparr>addToCartTextError := None\<rparr>)) = []
   \<and> dispatched (settle sampleFormData (Json soldOut) (samplePage\<lparr>addToCartTextError := None\<rparr>))
       = [CartErrorEvent ''product-form'' ''Sold out'']"
  by (simp add: settle_Json onResponse_error_no_element soldOut_def dispatchEvent_def samplePage_def)

text \<open>
  C6, amended. A response with an error status always emits the cart-error notification.
  On a page with the inline error element, the element is revealed with the message, the
  live region is set to the message, a timer due 10000 ms later is armed (and kept in
  \<^verbatim>\<open>#timeout\<close>) whose callback hides the element and clears the live region, and the
  cart-add notification flagged \<^verbatim>\<open>didError\<close> follows the cart-error notification. On a page
  without the element nothing but the cart-error notification happens.
\<close>

theorem settle_error_status:
  assumes "truthy (status r)"
  shows "(addToCartTextError w = None \<longrightarrow>
            settle fd (Json r) w
              = w\<lparr>dispatched := dispatched w @ [CartErrorEvent (component_id w) (message r)],
                  measured := Suc (measured w)\<rparr>)
       \<and> (\<forall>e. addToCartTextError w = Some e \<longrightarrow>
            (\<exists>e'. addToCartTextError (settle fd (Json r) w) = Some e' \<and> revealedWith (message r) e e')
          \<and> liveRegion_textContent (settle fd (Json r) w) = message r
          \<and> timers (settle fd (Json r) w)
              = timers w @ [\<lparr>timer_id = nextTimerId w, due = now w + 10000, callback = ErrorClear\<rparr>]
          \<and> timeout_handle (settle fd (Json r) w) = Some (nextTimerId w)
          \<and> dispatched (settle fd (Json r) w)
              = dispatched w @
                [CartErrorEvent (component_id w) (message r),
                 CartAddEvent (component_id w)
                   \<lparr>didError = True, source = ''product-form-component'',
                    itemCount = formData_get fd ''quantity'',
                    detail_productId = dataset_productId w, sections = None\<rparr>]
          \<and> (\<exists>e'. addToCartTextError (snd (runCallback ErrorClear (settle fd (Json r) w))) = Some e'
                  \<and> classList_contains e' ''hidden'')
          \<and> liveRegion_textContent (snd (runCallback ErrorClear (settle fd (Json r) w))) = [])"
  using assms
  by (auto simp: settle_Json onResponse_error_no_element onResponse_error_element dispatchEvent_def
      clearLiveRegionText_def revealedWith_def contains_writeMessage contains_remove contains_add
      childNodes_writeMessage childNodes_classList_remove)

lemma samplePage_errorElement:
  "addToCartTextError samplePage = Some (emptyElement\<lparr>classList := [''hidden'']\<rparr>)"
  by (simp add: samplePage_def)

lemma samplePage_timing:
  "timers samplePage = []" "nextTimerId samplePage = 1" "now samplePage = 0"
  by (simp_all add: samplePage_def)

lemma samplePage_id: "component_id samplePage = ''product-form''"
  by (simp add: samplePage_def)

lemma soldOut_fields: "truthy (status soldOut)" "message soldOut = ''Sold out''"
  by (simp_all add: soldOut_def)

theorem settle_error_status_witness:
  "truthy (status soldOut)
   \<and> dispatched (settle sampleFormData (Json soldOut) (samplePage\<lparr>addToCartTextError := None\<rparr>))
       = [CartErrorEvent ''product-form'' ''Sold out'']
   \<and> addToCartTextError samplePage = Some (emptyElement\<lparr>classList := [''hidden'']\<rparr>)
   \<and> liveRegion_textContent (settle sampleFormData (Json soldOut) samplePage) = ''Sold out''
   \<and> timers (settle sampleFormData (Json soldOut) samplePage)
       = [\<lparr>timer_id = 1, due = 10000, callback = ErrorClear\<rparr>]
   \<and> timeout_handle (settle sampleFormData (Json soldOut) samplePage) = Some 1
   \<and> liveRegion_textContent
        (snd (runCallback ErrorClear (settle sampleFormData (Json soldOut) samplePage))) = []"
proof -
  let ?p = "samplePage\<lparr>addToCartTextError := None\<rparr>"
  have "addToCartTextError ?p = None"
    by simp
  with settle_error_status [OF soldOut_fields(1), where w = ?p and fd = sampleFormData]
  have "settle sampleFormData (Json soldOut) ?p
          = ?p\<lparr>dispatched := dispatched ?p @ [CartErrorEvent (component_id ?p) (message soldOut)],
               measured := Suc (measured ?p)\<rparr>"
    by blast
  then have a: "dispatched (settle sampleFormData (Json soldOut) ?p)
          = [CartErrorEvent ''product-form'' ''Sold out'']"
    by (simp add: samplePage_emitted samplePage_id soldOut_fields)
  from settle_error_status [OF soldOut_fields(1), where w = samplePage and fd = sampleFormData]
    samplePage_errorElement
  have "liveRegion_textContent (settle sampleFormData (Json soldOut) samplePage) = message soldOut
      \<and> timers (settle sampleFormData (Json soldOut) samplePage)
          = timers samplePage @
            [\<lparr>timer_id = nextTimerId samplePage, due = now samplePage + 10000, callback = ErrorClear\<rparr>]
      \<and> timeout_handle (settle sampleFormData (Json soldOut) samplePage) = Some (nextTimerId samplePage)
      \<and> liveRegion_textContent
           (snd (runCallback ErrorClear (settle sampleFormData (Json soldOut) samplePage))) = []"
    by blast
  then have b: "liveRegion_textContent (settle sampleFormData (Json soldOut) samplePage) = ''Sold out''
      \<and> timers (settle sampleFormData (Json soldOut) samplePage)
          = [\<lparr>timer_id = 1, due = 10000, callback = ErrorClear\<rparr>]
      \<and> timeout_handle (settle sampleFormData (Json soldOut) samplePage) = Some 1
      \<and> liveRegion_textContent
           (snd (runCallback ErrorClear (settle sampleFormData (Json soldOut) samplePage))) = []"
    by (simp add: samplePage_timing soldOut_fields)
  from a b soldOut_fields(1) samplePage_errorElement show ?thesis
    by blast
qed

lemma added_ok: "\<not> truthy (status added)"
  by (simp add: added_def)

lemma addedText_errorElement:
  "addedText b (w\<lparr>addToCartTextError := x\<rparr>) = addedText b w"
  by (simp add: addedText_def split: option.splits)

lemma currentAddToCartButton_errorElement:
  "currentAddToCartButton (w\<lparr>addToCartTextError := x\<rparr>) = currentAddToCartButton w"
  by (simp add: currentAddToCartButton_def)

lemma onResponse_success_no_id:
  "\<not> truthy (status r) \<Longrightarrow> formData_get fd ''id'' = None \<or> formData_get fd ''id'' = Some []
     \<Longrightarrow> onResponse fd r w =
        (Some (Error ''Form ID is required''),
         w\<lparr>addToCartTextError :=
             map_option (removeAttribute ''aria-live'' \<circ> classList_add ''hidden'')
               (addToCartTextError w)\<rparr>)"
  by (auto simp: onResponse_def Let_def)

lemma onResponse_success_no_button:
  "\<not> truthy (status r) \<Longrightarrow> formData_get fd ''id'' = Some i \<Longrightarrow> i \<noteq> []
     \<Longrightarrow> currentAddToCartButton w = None
     \<Longrightarrow> onResponse fd r w =
        (None,
         w\<lparr>addToCartTextError :=
             map_option (removeAttribute ''aria-live'' \<circ> classList_add ''hidden'')
               (addToCartTextError w),
           dispatched := dispatched w @
             [CartAddEvent i
                \<lparr>didError = False, source = ''product-form-component'',
                 itemCount = formData_get fd ''quantity'',
                 detail_productId = dataset_productId w,
                 sections = response_sections r\<rparr>]\<rparr>)"
  by (simp add: onResponse_def Let_def dispatchEvent_def currentAddToCartButton_errorElement)

lemma onResponse_success_button:
  "\<not> truthy (status r) \<Longrightarrow> formData_get fd ''id'' = Some i \<Longrightarrow> i \<noteq> []
     \<Longrightarrow> currentAddToCartButton w = Some b
     \<Longrightarrow> onResponse fd r w =
        (None,
         w\<lparr>addToCartTextError :=
             map_option (removeAttribute ''aria-live'' \<circ> classList_add ''hidden'')
               (addToCartTextError w),
           liveRegion_textContent := addedText b w,
           timers := timers w @
             [\<lparr>timer_id = nextTimerId w, due = now w + 5000, callback = LiveRegionClear\<rparr>],
           nextTimerId := Suc (nextTimerId w),
           dispatched := dispatched w @
             [CartAddEvent i
                \<lparr>didError = False, source = ''product-form-component'',
                 itemCount = formData_get fd ''quantity'',
                 detail_productId = dataset_productId w,
                 sections = response_sections r\<rparr>]\<rparr>)"
  by (simp add: onResponse_def Let_def dispatchEvent_def currentAddToCartButton_errorElement
      setTimeout_eq setLiveRegionText_def addedText_errorElement)

lemma hidden_after_success:
  "classList_contains ((removeAttribute ''aria-live'' \<circ> classList_add ''hidden'') e) ''hidden''"
  by (simp add: classList_contains_def removeAttribute_def classList_add_def)

text \<open>
  C7, amended. A response without an error status hides an existing inline error element.
  When the form data has no id (or an empty one), \<^verbatim>\<open>Form ID is required\<close> is thrown in
  the handler and logged by the \<^verbatim>\<open>catch\<close>: the live region, the timers and the
  notifications stay as they were. Otherwise the cart-add notification with the
  response's sections is emitted; on a page with the purchase button the live region gets
  the added phrase and a timer due 5000 ms later clears it, and on a page without the
  button the live region and the timers stay as they were.
\<close>

theorem settle_success:
  assumes "\<not> truthy (status r)"
  shows "(\<forall>e. addToCartTextError w = Some e \<longrightarrow>
            (\<exists>e'. addToCartTextError (settle fd (Json r) w) = Some e' \<and> classList_contains e' ''hidden''))
       \<and> (formData_get fd ''id'' = None \<or> formData_get fd ''id'' = Some [] \<longrightarrow>
            console (settle fd (Json r) w) = console w @ [PromiseRejected (Error ''Form ID is required'')]
          \<and> liveRegion_textContent (settle fd (Json r) w) = liveRegion_textContent w
          \<and> timers (settle fd (Json r) w) = timers w
          \<and> dispatched (settle fd (Json r) w) = dispatched w)
       \<and> (\<forall>i. formData_get fd ''id'' = Some i \<and> i \<noteq> [] \<longrightarrow>
            dispatched (settle fd (Json r) w)
              = dispatched w @
                [CartAddEvent i
                   \<lparr>didError = False, source = ''product-form-component'',
                    itemCount = formData_get fd ''quantity'',
                    detail_productId = dataset_productId w,
                    sections = response_sections r\<rparr>]
          \<and> (currentAddToCartButton w = None \<longrightarrow>
                liveRegion_textContent (settle fd (Json r) w) = liveRegion_textContent w
              \<and> timers (settle fd (Json r) w) = timers w)
          \<and> (\<forall>b. currentAddToCartButton w = Some b \<longrightarrow>
                liveRegion_textContent (settle fd (Json r) w) = addedText b w
              \<and> timers (settle fd (Json r) w)
                  = timers w @
                    [\<lparr>timer_id = nextTimerId w, due = now w + 5000, callback = LiveRegionClear\<rparr>]
              \<and> liveRegion_textContent (snd (runCallback LiveRegionClear (settle fd (Json r) w))) = []))"
proof (intro conjI allI impI)
  fix e assume "addToCartTextError w = Some e"
  then show "\<exists>e'. addToCartTextError (settle fd (Json r) w) = Some e' \<and> classList_contains e' ''hidden''"
    using assms hidden_after_success [of e]
    by (auto simp: settle_Json onResponse_def Let_def dispatchEvent_def setTimeout_eq
        setLiveRegionText_def split: option.splits)
next
  assume a: "formData_get fd ''id'' = None \<or> formData_get fd ''id'' = Some []"
  note eq = onResponse_success_no_id [OF assms a]
  show "console (settle fd (Json r) w) = console w @ [PromiseRejected (Error ''Form ID is required'')]"
    "liveRegion_textContent (settle fd (Json r) w) = liveRegion_textContent w"
    "timers (settle fd (Json r) w) = timers w"
    "dispatched (settle fd (Json r) w) = dispatched w"
    by (simp_all add: settle_Json eq)
next
  fix i assume a: "formData_get fd ''id'' = Some i \<and> i \<noteq> []"
  show "dispatched (settle fd (Json r) w)
          = dispatched w @
            [CartAddEvent i
               \<lparr>didError = False, source = ''product-form-component'',
                itemCount = formData_get fd ''quantity'',
                detail_productId = dataset_productId w,
                sections = response_sections r\<rparr>]"
  proof (cases "currentAddToCartButton w")
    case None
    with assms a show ?thesis by (simp add: settle_Json onResponse_success_no_button)
  next
    case (Some b)
    with assms a show ?thesis by (simp add: settle_Json onResponse_success_button)
  qed
  {
    assume "currentAddToCartButton w = None"
    with assms a show "liveRegion_textContent (settle fd (Json r) w) = liveRegion_textContent w"
      "timers (settle fd (Json r) w) = timers w"
      by (simp_all add: settle_Json onResponse_success_no_button)
  }
  {
    fix b assume "currentAddToCartButton w = Some b"
    with assms a show "liveRegion_textContent (settle fd (Json r) w) = addedText b w"
      "timers (settle fd (Json r) w)
         = timers w @ [\<lparr>timer_id = nextTimerId w, due = now w + 5000, callback = LiveRegionClear\<rparr>]"
      "liveRegion_textContent (snd (runCallback LiveRegionClear (settle fd (Json r) w))) = []"
      by (simp_all add: settle_Json onResponse_success_button clearLiveRegionText_def)
  }
qed

lemma added_fields: "response_sections added = Some [(''cart-drawer'', ''<div>1</div>'')]"
  by (simp add: added_def)

lemma sampleFormData_fields:
  "formData_get sampleFormData ''id'' = Some ''42''"
  "formData_get sampleFormData ''quantity'' = Some ''1''"
  "formData_get [(''quantity'', ''1'')] ''id'' = None"
  by (simp_all add: sampleFormData_def formData_get_def)

lemma samplePage_addedText: "addedText emptyElement samplePage = ''Added''"
  by (simp add: addedText_def querySelectorText_def emptyElement_def samplePage_def)

lemma samplePage_liveRegion: "liveRegion_textContent samplePage = []"
  by (simp add: samplePage_def)

text \<open>
  C7, as stated, fails on a page without the add-to-cart container (the ref is optional):
  the cart-add notification is emitted, but the live region is not populated and no timer
  is armed.
\<close>

theorem settle_success_without_button_counterexample:
  "\<not> truthy (status added)
   \<and> theme_translations_added (samplePage\<lparr>addToCartButtonContainer := None\<rparr>) = ''Added''
   \<and> liveRegion_textContent
        (settle sampleFormData (Json added) (samplePage\<lparr>addToCartButtonContainer := None\<rparr>)) = []
   \<and> timers (settle sampleFormData (Json added) (samplePage\<lparr>addToCartButtonContainer := None\<rparr>)) = []
   \<and> dispatched (settle sampleFormData (Json added) (samplePage\<lparr>addToCartButtonContainer := None\<rparr>))
       = [CartAddEvent ''42''
            \<lparr>didError = False, source = ''product-form-component'', itemCount = Some ''1'',
             detail_productId = Some ''7'',
             sections = Some [(''cart-drawer'', ''<div>1</div>'')]\<rparr>]"
proof -
  let ?p = "samplePage\<lparr>addToCartButtonContainer := None\<rparr>"
  have b: "currentAddToCartButton ?p = None"
    by (simp add: currentAddToCartButton_def)
  have i: "''42'' \<noteq> ([] :: string)"
    by simp
  note eq = onResponse_success_no_button [OF added_ok sampleFormData_fields(1) i b]
  show ?thesis
    by (simp add: settle_Json eq added_ok added_fields sampleFormData_fields)
      (simp add: samplePage_def)
qed

theorem settle_success_witness:
  "\<not> truthy (status added)
   \<and> formData_get sampleFormData ''id'' = Some ''42''
   \<and> currentAddToCartButton samplePage = Some emptyElement
   \<and> liveRegion_textContent (settle sampleFormData (Json added) samplePage) = ''Added''
   \<and> timers (settle sampleFormData (Json added) samplePage)
       = [\<lparr>timer_id = 1, due = 5000, callback = LiveRegionClear\<rparr>]
   \<and> liveRegion_textContent
        (snd (runCallback LiveRegionClear (settle sampleFormData (Json added) samplePage))) = []
   \<and> formData_get [(''quantity'', ''1'')] ''id'' = None
   \<and> console (settle [(''quantity'', ''1'')] (Json added) samplePage)
       = [PromiseRejected (Error ''Form ID is required'')]
   \<and> dispatched (settle [(''quantity'', ''1'')] (Json added) samplePage) = []"
proof -
  have i: "formData_get sampleFormData ''id'' = Some ''42'' \<and> ''42'' \<noteq> ([] :: string)"
    by (simp add: sampleFormData_fields)
  from settle_success [OF added_ok, where w = samplePage and fd = sampleFormData] i samplePage_button
  have "liveRegion_textContent (settle sampleFormData (Json added) samplePage)
          = addedText emptyElement samplePage
      \<and> timers (settle sampleFormData (Json added) samplePage)
          = timers samplePage @
            [\<lparr>timer_id = nextTimerId samplePage, due = now samplePage + 5000, callback = LiveRegionClear\<rparr>]
      \<and> liveRegion_textContent
           (snd (runCallback LiveRegionClear (settle sampleFormData (Json added) samplePage))) = []"
    by blast
  then have a: "liveRegion_textContent (settle sampleFormData (Json added) samplePage) = ''Added''
      \<and> timers (settle sampleFormData (Json added) samplePage)
          = [\<lparr>timer_id = 1, due = 5000, callback = LiveRegionClear\<rparr>]
      \<and> liveRegion_textContent
           (snd (runCallback LiveRegionClear (settle sampleFormData (Json added) samplePage))) = []"
    by (simp add: samplePage_addedText samplePage_timing)
  from settle_success [OF added_ok, where w = samplePage and fd = "[(''quantity'', ''1'')]"]
    sampleFormData_fields(3)
  have "console (settle [(''quantity'', ''1'')] (Json added) samplePage)
          = console samplePage @ [PromiseRejected (Error ''Form ID is required'')]
      \<and> dispatched (settle [(''quantity'', ''1'')] (Json added) samplePage) = dispatched samplePage"
    by blast
  then have b: "console (settle [(''quantity'', ''1'')] (Json added) samplePage)
          = [PromiseRejected (Error ''Form ID is required'')]
      \<and> dispatched (settle [(''quantity'', ''1'')] (Json added) samplePage) = []"
    by (simp add: samplePage_emitted)
  from a b i added_ok samplePage_button sampleFormData_fields(3) show ?thesis
    by blast
qed

section \<open>Timers and teardown\<close>

lemma timersTracked_cong:
  assumes "timersTracked w"
    and "timers w' = timers w" and "nextTimerId w' = nextTimerId w"
    and "animationHandle w' = animationHandle w" and "cleanupHandle w' = cleanupHandle w"
  shows "timersTracked w'"
  using assms by (simp add: timersTracked_def addToCartTimers_def)

lemma fresh_tracked: "fresh w \<Longrightarrow> timersTracked w"
  by (simp add: fresh_def timersTracked_def addToCartTimers_def)

lemma handles_update_button:
  "animationHandle (update_button f w) = animationHandle w"
  "cleanupHandle (update_button f w) = cleanupHandle w"
  "timers (update_button f w) = timers w"
  "nextTimerId (update_button f w) = nextTimerId w"
  by (simp_all add: animationHandle_def cleanupHandle_def update_button_def update_container_def
      split: option.splits)

lemma handles_updateAvailabilityState:
  "animationHandle (updateAvailabilityState v w) = animationHandle w"
  "cleanupHandle (updateAvailabilityState v w) = cleanupHandle w"
  "timers (updateAvailabilityState v w) = timers w"
  "nextTimerId (updateAvailabilityState v w) = nextTimerId w"
  by (simp_all add: updateAvailabilityState_def animationHandle_def cleanupHandle_def
      update_button_def update_container_def split: option.splits)

lemma tracked_updateAvailabilityState:
  "timersTracked w \<Longrightarrow> timersTracked (updateAvailabilityState v w)"
  by (erule timersTracked_cong) (simp_all add: handles_updateAvailabilityState)

lemma tracked_initialize:
  "timersTracked w \<Longrightarrow> timersTracked (initializeWithCurrentVariant parse w)"
  by (auto simp: initializeWithCurrentVariant_def tracked_updateAvailabilityState
      animationHandle_def cleanupHandle_def
      elim: timersTracked_cong split: option.splits sum.splits)

lemma tracked_connected:
  "timersTracked w \<Longrightarrow> timersTracked (productForm_connectedCallback parse w)"
  unfolding productForm_connectedCallback_def
  by (rule tracked_initialize)
    (auto simp: animationHandle_def cleanupHandle_def elim: timersTracked_cong)

lemma tracked_disconnected:
  "timersTracked w \<Longrightarrow> timersTracked (productForm_disconnectedCallback w)"
  by (erule timersTracked_cong)
    (simp_all add: productForm_disconnectedCallback_def animationHandle_def cleanupHandle_def)

lemma tracked_elapse: "timersTracked w \<Longrightarrow> timersTracked (w\<lparr>now := now w + d\<rparr>)"
  by (erule timersTracked_cong) (simp_all add: animationHandle_def cleanupHandle_def)

text \<open>Clearing a handle.\<close>

lemma timers_clearIfSet:
  "timers (clearIfSet h w) = filter (\<lambda>t. \<not> (h = Some (timer_id t) \<and> timer_id t \<noteq> 0)) (timers w)"
  by (auto simp: clearIfSet_def clearTimeout_def split: option.splits intro: filter_cong)

lemma addToCartTimers_clearIfSet:
  "addToCartTimers (clearIfSet h w)
     = filter (\<lambda>t. \<not> (h = Some (timer_id t) \<and> timer_id t \<noteq> 0)) (addToCartTimers w)"
  by (simp add: addToCartTimers_def timers_clearIfSet) (metis (mono_tags, lifting) filter_cong)

lemma handles_clearIfSet:
  "animationHandle (clearIfSet h w) = animationHandle w"
  "cleanupHandle (clearIfSet h w) = cleanupHandle w"
  "nextTimerId (clearIfSet h w) = nextTimerId w"
  "now (clearIfSet h w) = now w"
  by (simp_all add: animationHandle_def cleanupHandle_def clearIfSet_def clearTimeout_def
      split: option.splits)

lemma tracked_filter:
  assumes "timersTracked w"
    and "timers w' = filter P (timers w)" and "nextTimerId w' = nextTimerId w"
    and "animationHandle w' = animationHandle w" and "cleanupHandle w' = cleanupHandle w"
  shows "timersTracked w'"
proof -
  have f: "addToCartTimers w' = filter P (addToCartTimers w)"
    using assms(2) by (simp add: addToCartTimers_def) (metis (mono_tags, lifting) filter_cong)
  from assms(1) consider "addToCartTimers w = []"
    | t where "addToCartTimers w = [t]"
      "callback t = AnimationDone \<and> animationHandle w = Some (timer_id t) \<or>
       callback t = RemoveAtcAdded \<and> cleanupHandle w = Some (timer_id t)"
    by (auto simp: timersTracked_def)
  then have "addToCartTimers w' = [] \<or>
      (\<exists>t. addToCartTimers w' = [t] \<and>
           (callback t = AnimationDone \<and> animationHandle w' = Some (timer_id t) \<or>
            callback t = RemoveAtcAdded \<and> cleanupHandle w' = Some (timer_id t)))"
  proof cases
    case 1
    then show ?thesis by (simp add: f)
  next
    case (2 t)
    then show ?thesis by (cases "P t") (simp_all add: f assms(4,5))
  qed
  with assms show ?thesis
    by (simp add: timersTracked_def)
qed

lemma tracked_clearIfSet: "timersTracked w \<Longrightarrow> timersTracked (clearIfSet h w)"
  by (erule tracked_filter) (simp_all add: timers_clearIfSet handles_clearIfSet)

lemma addToCartTimers_in_timers: "t \<in> set (addToCartTimers w) \<Longrightarrow> t \<in> set (timers w)"
  by (simp add: addToCartTimers_def)

lemma addToCartTimers_cleared:
  assumes "timersTracked w"
  shows "addToCartTimers (clearIfSet (cleanupHandle w) (clearIfSet (animationHandle w) w)) = []"
proof (cases "addToCartTimers w")
  case Nil
  then show ?thesis by (simp add: addToCartTimers_clearIfSet)
next
  case (Cons t ts)
  with assms have ts: "ts = []"
    and h: "animationHandle w = Some (timer_id t) \<or> cleanupHandle w = Some (timer_id t)"
    by (auto simp: timersTracked_def)
  from Cons have "t \<in> set (timers w)"
    by (simp add: addToCartTimers_in_timers)
  with assms have "0 < timer_id t"
    by (simp add: timersTracked_def)
  with Cons ts h show ?thesis
    by (auto simp: addToCartTimers_clearIfSet)
qed

lemma handles_of_container:
  "addToCartButtonContainer w = Some c \<Longrightarrow> animationTimeout c = animationHandle w"
  "addToCartButtonContainer w = Some c \<Longrightarrow> cleanupTimeout c = cleanupHandle w"
  by (simp_all add: animationHandle_def cleanupHandle_def)

lemma no_container_no_timers:
  "timersTracked w \<Longrightarrow> addToCartButtonContainer w = None \<Longrightarrow> addToCartTimers w = []"
  by (auto simp: timersTracked_def animationHandle_def cleanupHandle_def)

lemma addToCart_disconnectedCallback_eq:
  "addToCartButtonContainer w \<noteq> None \<Longrightarrow>
     addToCart_disconnectedCallback w
       = clearIfSet (cleanupHandle w) (clearIfSet (animationHandle w) w)"
  by (auto simp: addToCart_disconnectedCallback_def handles_of_container)

lemma tracked_addToCart_disconnected:
  "timersTracked w \<Longrightarrow> timersTracked (addToCart_disconnectedCallback w)"
  by (cases "addToCartButtonContainer w")
    (simp_all add: addToCart_disconnectedCallback_def tracked_clearIfSet)

lemma addToCart_disconnected_clears:
  "timersTracked w \<Longrightarrow> addToCartTimers (addToCart_disconnectedCallback w) = []"
  by (cases "addToCartButtonContainer w")
    (simp_all add: addToCart_disconnectedCallback_eq addToCartTimers_cleared,
      simp add: addToCart_disconnectedCallback_def no_container_no_timers)

text \<open>Arming a timer.\<close>

lemma tracked_arm_other:
  assumes "timersTracked w"
    and "timers w' = timers w @ [\<lparr>timer_id = nextTimerId w, due = d, callback = cb\<rparr>]"
    and "cb = ErrorClear \<or> cb = LiveRegionClear"
    and "nextTimerId w' = Suc (nextTimerId w)"
    and "animationHandle w' = animationHandle w" and "cleanupHandle w' = cleanupHandle w"
  shows "timersTracked w'"
  using assms by (auto simp: timersTracked_def addToCartTimers_def isAddToCartTimer_def)

lemma tracked_arm_addToCart:
  assumes "timersTracked w" and "addToCartTimers w = []"
    and "timers w' = timers w @ [\<lparr>timer_id = nextTimerId w, due = d, callback = cb\<rparr>]"
    and "nextTimerId w' = Suc (nextTimerId w)"
    and "cb = AnimationDone \<and> animationHandle w' = Some (nextTimerId w) \<or>
         cb = RemoveAtcAdded \<and> cleanupHandle w' = Some (nextTimerId w)"
  shows "timersTracked w'"
  using assms by (auto simp: timersTracked_def addToCartTimers_def isAddToCartTimer_def)

lemma handles_update_container_animation:
  "addToCartButtonContainer w \<noteq> None \<Longrightarrow>
     animationHandle (update_container (\<lambda>c. c\<lparr>animationTimeout := Some h\<rparr>) w) = Some h"
  "cleanupHandle (update_container (\<lambda>c. c\<lparr>animationTimeout := Some h\<rparr>) w) = cleanupHandle w"
  "timers (update_container f w) = timers w"
  "nextTimerId (update_container f w) = nextTimerId w"
  by (auto simp: animationHandle_def cleanupHandle_def update_container_def split: option.splits)

lemma handles_update_container_cleanup:
  "addToCartButtonContainer w \<noteq> None \<Longrightarrow>
     cleanupHandle (update_container (\<lambda>c. c\<lparr>cleanupTimeout := Some h\<rparr>) w) = Some h"
  "animationHandle (update_container (\<lambda>c. c\<lparr>cleanupTimeout := Some h\<rparr>) w) = animationHandle w"
  by (auto simp: animationHandle_def cleanupHandle_def update_container_def split: option.splits)

lemma container_setTimeout:
  "addToCartButtonContainer (snd (setTimeout cb d w)) = addToCartButtonContainer w"
  by (simp add: setTimeout_def)

lemma container_update_button:
  "addToCartButtonContainer (update_button f w) = None \<longleftrightarrow> addToCartButtonContainer w = None"
  by (simp add: update_button_def update_container_def)

lemma handles_setTimeout:
  "animationHandle (snd (setTimeout cb d w)) = animationHandle w"
  "cleanupHandle (snd (setTimeout cb d w)) = cleanupHandle w"
  "timers (snd (setTimeout cb d w))
     = timers w @ [\<lparr>timer_id = nextTimerId w, due = now w + d, callback = cb\<rparr>]"
  "nextTimerId (snd (setTimeout cb d w)) = Suc (nextTimerId w)"
  "fst (setTimeout cb d w) = nextTimerId w"
  by (simp_all add: setTimeout_def animationHandle_def cleanupHandle_def)

lemma now_update_button: "now (update_button f w) = now w"
  by (simp add: update_button_def update_container_def)

lemma animateAddToCart_eq:
  assumes "addToCartButtonContainer w = Some c" and "addToCartButton c = Some b"
  shows "animateAddToCart w =
     (None,
      update_container (\<lambda>c. c\<lparr>animationTimeout := Some (nextTimerId w)\<rparr>)
        (snd (setTimeout AnimationDone ADD_TO_CART_TEXT_ANIMATION_DURATION
           (if \<not> classList_contains b ''atc-added''
            then update_button (classList_add ''atc-added'')
                   (clearIfSet (cleanupTimeout c) (clearIfSet (animationTimeout c) w))
            else clearIfSet (cleanupTimeout c) (clearIfSet (animationTimeout c) w)))))"
  using assms
  by (simp add: animateAddToCart_def Let_def split_beta handles_setTimeout handles_update_button
      handles_clearIfSet)

lemma animateAddToCart_armed:
  assumes "addToCartButtonContainer w = Some c" and "addToCartButton c = Some b"
  shows "timers (snd (animateAddToCart w))
           = timers (clearIfSet (cleanupHandle w) (clearIfSet (animationHandle w) w)) @
             [\<lparr>timer_id = nextTimerId w, due = now w + ADD_TO_CART_TEXT_ANIMATION_DURATION,
               callback = AnimationDone\<rparr>]"
    and "nextTimerId (snd (animateAddToCart w)) = Suc (nextTimerId w)"
    and "animationHandle (snd (animateAddToCart w)) = Some (nextTimerId w)"
proof -
  have c: "addToCartButtonContainer (clearIfSet (cleanupTimeout c) (clearIfSet (animationTimeout c) w)) \<noteq> None"
    using assms(1) by (simp add: clearIfSet_fields)
  show "timers (snd (animateAddToCart w))
           = timers (clearIfSet (cleanupHandle w) (clearIfSet (animationHandle w) w)) @
             [\<lparr>timer_id = nextTimerId w, due = now w + ADD_TO_CART_TEXT_ANIMATION_DURATION,
               callback = AnimationDone\<rparr>]"
    by (simp add: animateAddToCart_eq [OF assms] handles_update_container_animation handles_setTimeout
        handles_update_button handles_clearIfSet now_update_button
        handles_of_container [OF assms(1), symmetric])
  show "nextTimerId (snd (animateAddToCart w)) = Suc (nextTimerId w)"
    by (simp add: animateAddToCart_eq [OF assms] handles_update_container_animation handles_setTimeout
        handles_update_button handles_clearIfSet)
  show "animationHandle (snd (animateAddToCart w)) = Some (nextTimerId w)"
    using c
    by (simp add: animateAddToCart_eq [OF assms] handles_update_container_animation
        container_setTimeout container_update_button)
qed

lemma animateAddToCart_thrown:
  assumes "addToCartButtonContainer w = Some c" and "addToCartButton c = None"
  shows "animateAddToCart w
           = (Some TypeError, clearIfSet (cleanupHandle w) (clearIfSet (animationHandle w) w))"
  using assms
  by (simp add: animateAddToCart_def Let_def handles_of_container [OF assms(1), symmetric])

lemma tracked_animateAddToCart:
  assumes "timersTracked w"
  shows "timersTracked (snd (animateAddToCart w))"
proof (cases "addToCartButtonContainer w")
  case None
  with assms show ?thesis by (simp add: animateAddToCart_def)
next
  case (Some c)
  let ?w2 = "clearIfSet (cleanupHandle w) (clearIfSet (animationHandle w) w)"
  have t2: "timersTracked ?w2"
    using assms by (simp add: tracked_clearIfSet)
  show ?thesis
  proof (cases "addToCartButton c")
    case None
    with Some t2 show ?thesis by (simp add: animateAddToCart_thrown)
  next
    case (Some b)
    note armed = animateAddToCart_armed [OF \<open>addToCartButtonContainer w = Some c\<close> Some]
    show ?thesis
      by (rule tracked_arm_addToCart [OF t2 addToCartTimers_cleared [OF assms], where cb = AnimationDone])
        (simp_all add: armed handles_clearIfSet)
  qed
qed

lemma handleSubmit_cases:
  "snd (handleSubmit w) = clearIfSet (timeout_handle w) w
   \<or> snd (handleSubmit w)
        = (clearIfSet (timeout_handle w) w)
            \<lparr>fetches := fetches (clearIfSet (timeout_handle w) w) @
               [\<lparr>url = theme_routes_root (clearIfSet (timeout_handle w) w) @ ''cart/add.js'',
                 body = appendSections (cartItemsComponents (clearIfSet (timeout_handle w) w)) []
                          (the (form (clearIfSet (timeout_handle w) w)))\<rparr>]\<rparr>"
proof (cases "form (clearIfSet (timeout_handle w) w)")
  case None
  then show ?thesis by (simp add: handleSubmit_def Let_def)
next
  case (Some entries)
  then show ?thesis by (simp add: handleSubmit_def Let_def)
qed

lemma tracked_handleSubmit:
  assumes "timersTracked w"
  shows "timersTracked (snd (handleSubmit w))"
proof -
  have t: "timersTracked (clearIfSet (timeout_handle w) w)"
    using assms by (rule tracked_clearIfSet)
  from handleSubmit_cases [of w] show ?thesis
  proof
    assume "snd (handleSubmit w) = clearIfSet (timeout_handle w) w"
    with t show ?thesis by simp
  next
    assume e: "snd (handleSubmit w)
        = (clearIfSet (timeout_handle w) w)
            \<lparr>fetches := fetches (clearIfSet (timeout_handle w) w) @
               [\<lparr>url = theme_routes_root (clearIfSet (timeout_handle w) w) @ ''cart/add.js'',
                 body = appendSections (cartItemsComponents (clearIfSet (timeout_handle w) w)) []
                          (the (form (clearIfSet (timeout_handle w) w)))\<rparr>]\<rparr>"
    show ?thesis
      unfolding e
      by (rule timersTracked_cong [OF t]) (simp_all add: animationHandle_def cleanupHandle_def)
  qed
qed

lemma tracked_onResponse:
  assumes "timersTracked w"
  shows "timersTracked (snd (onResponse fd r w))"
proof (cases "truthy (status r)")
  case True
  show ?thesis
  proof (cases "addToCartTextError w")
    case None
    show ?thesis
      by (rule timersTracked_cong [OF assms])
        (simp_all add: onResponse_error_no_element [OF True None] dispatchEvent_def
          animationHandle_def cleanupHandle_def)
  next
    case (Some e)
    show ?thesis
      by (rule tracked_arm_other [OF assms, where cb = ErrorClear and d = "now w + 10000"])
        (simp_all add: onResponse_error_element [OF True Some] animationHandle_def cleanupHandle_def)
  qed
next
  case False
  show ?thesis
  proof (cases "formData_get fd ''id'' = None \<or> formData_get fd ''id'' = Some []")
    case True
    show ?thesis
      by (rule timersTracked_cong [OF assms])
        (simp_all add: onResponse_success_no_id [OF False True] animationHandle_def cleanupHandle_def)
  next
    case noid: False
    then obtain i where i: "formData_get fd ''id'' = Some i" "i \<noteq> []"
      by auto
    show ?thesis
    proof (cases "currentAddToCartButton w")
      case None
      show ?thesis
        by (rule timersTracked_cong [OF assms])
          (simp_all add: onResponse_success_no_button [OF False i None]
            animationHandle_def cleanupHandle_def)
    next
      case (Some b)
      show ?thesis
        by (rule tracked_arm_other [OF assms, where cb = LiveRegionClear and d = "now w + 5000"])
          (simp_all add: onResponse_success_button [OF False i Some]
            animationHandle_def cleanupHandle_def)
    qed
  qed
qed

lemma tracked_settle:
  assumes "timersTracked w"
  shows "timersTracked (settle fd out w)"
proof (cases out)
  case (Rejected e)
  show ?thesis
    by (rule timersTracked_cong [OF assms])
      (simp_all add: Rejected settle_def animationHandle_def cleanupHandle_def)
next
  case (Json r)
  show ?thesis
    by (rule timersTracked_cong [OF tracked_onResponse [OF assms, of fd r]])
      (simp_all add: Json settle_Json animationHandle_def cleanupHandle_def
        split: prod.splits option.splits)
qed

lemma handles_update_container_attributes:
  "animationHandle (update_container (\<lambda>c. c\<lparr>component_attributes := a c\<rparr>) w) = animationHandle w"
  "cleanupHandle (update_container (\<lambda>c. c\<lparr>component_attributes := a c\<rparr>) w) = cleanupHandle w"
  by (simp_all add: animationHandle_def cleanupHandle_def update_container_def split: option.splits)

lemma handles_fields:
  "animationHandle (w\<lparr>dataset_productId := p\<rparr>) = animationHandle w"
  "cleanupHandle (w\<lparr>dataset_productId := p\<rparr>) = cleanupHandle w"
  "animationHandle (w\<lparr>variantId_value := v\<rparr>) = animationHandle w"
  "cleanupHandle (w\<lparr>variantId_value := v\<rparr>) = cleanupHandle w"
  "animationHandle (w\<lparr>addToCartTextError := e\<rparr>) = animationHandle w"
  "cleanupHandle (w\<lparr>addToCartTextError := e\<rparr>) = cleanupHandle w"
  "animationHandle (w\<lparr>liveRegion_textContent := l\<rparr>) = animationHandle w"
  "cleanupHandle (w\<lparr>liveRegion_textContent := l\<rparr>) = cleanupHandle w"
  "animationHandle (w\<lparr>timers := ts\<rparr>) = animationHandle w"
  "cleanupHandle (w\<lparr>timers := ts\<rparr>) = cleanupHandle w"
  by (simp_all add: animationHandle_def cleanupHandle_def)

lemma sameTimers_refl: "sameTimers w w"
  by (simp add: sameTimers_def)

lemma sameTimers_trans: "sameTimers w'' w' \<Longrightarrow> sameTimers w' w \<Longrightarrow> sameTimers w'' w"
  by (simp add: sameTimers_def)

lemma sameTimers_tracked: "sameTimers w' w \<Longrightarrow> timersTracked w \<Longrightarrow> timersTracked w'"
  by (auto simp: sameTimers_def elim: timersTracked_cong)

lemma sameTimers_steps:
  "sameTimers (w\<lparr>dataset_productId := p\<rparr>) w"
  "sameTimers (w\<lparr>variantId_value := v\<rparr>) w"
  "sameTimers (updateAvailabilityState x w) w"
  "sameTimers (update_button f w) w"
  "sameTimers (update_container (\<lambda>c. c\<lparr>component_attributes := a c\<rparr>) w) w"
  by (simp_all add: sameTimers_def handles_fields handles_updateAvailabilityState
      handles_update_button handles_update_container_attributes
      handles_update_container_animation)

lemma onVariantUpdate_cases:
  "snd (onVariantUpdate morph ev w) =
     (let w1 = (case newProduct_id ev of None \<Rightarrow> w | Some p \<Rightarrow> w\<lparr>dataset_productId := Some p\<rparr>);
          w3 = (case html_addToCartButton ev of
                  None \<Rightarrow> updateAvailabilityState (resource ev) w1
                | Some newButton \<Rightarrow>
                    update_button (\<lambda>cur. morph cur newButton)
                      (updateAvailabilityState (resource ev) w1))
      in if newProduct_id ev = None \<and> data_productId ev \<noteq> dataset_productId w then w
         else if currentAddToCartButton w1 = None then w1
         else case resource ev of
                None \<Rightarrow> w3
              | Some r \<Rightarrow>
                  (case featured_media_src r of
                     None \<Rightarrow> w3\<lparr>variantId_value := nullishToEmpty (variant_id r)\<rparr>
                   | Some media \<Rightarrow>
                       if media = [] then w3\<lparr>variantId_value := nullishToEmpty (variant_id r)\<rparr>
                       else update_container
                              (\<lambda>c. c\<lparr>component_attributes :=
                                       AList.update ''data-product-variant-media''
                                         (media @ ''&width=100'') (component_attributes c)\<rparr>)
                              (w3\<lparr>variantId_value := nullishToEmpty (variant_id r)\<rparr>)))"
proof (cases "newProduct_id ev")
  case None
  show ?thesis
  proof (cases "currentAddToCartButton w")
    case n: None
    show ?thesis
      by (simp add: onVariantUpdate_def None n)
  next
    case s: (Some b)
    show ?thesis
      by (cases "resource ev")
        (simp_all add: onVariantUpdate_def None s Let_def cong: option.case_cong)
  qed
next
  case (Some p)
  show ?thesis
  proof (cases "currentAddToCartButton (w\<lparr>dataset_productId := Some p\<rparr>)")
    case n: None
    show ?thesis
      by (simp add: onVariantUpdate_def Some n)
  next
    case s: (Some b)
    show ?thesis
      by (cases "resource ev")
        (simp_all add: onVariantUpdate_def Some s Let_def cong: option.case_cong)
  qed
qed

lemma sameTimers_onVariantUpdate: "sameTimers (snd (onVariantUpdate morph ev w)) w"
proof -
  define w1 where "w1 = (case newProduct_id ev of None \<Rightarrow> w | Some p \<Rightarrow> w\<lparr>dataset_productId := Some p\<rparr>)"
  define w3 where "w3 = (case html_addToCartButton ev of
      None \<Rightarrow> updateAvailabilityState (resource ev) w1
    | Some newButton \<Rightarrow>
        update_button (\<lambda>cur. morph cur newButton) (updateAvailabilityState (resource ev) w1))"
  have s1: "sameTimers w1 w"
    by (cases "newProduct_id ev") (simp_all add: w1_def sameTimers_refl sameTimers_steps)
  have s2: "sameTimers (updateAvailabilityState (resource ev) w1) w"
    by (rule sameTimers_trans [OF sameTimers_steps(3) s1])
  have s3: "sameTimers w3 w"
    by (cases "html_addToCartButton ev")
      (simp_all add: w3_def s2 sameTimers_trans [OF sameTimers_steps(4) s2])
  have s4: "sameTimers (w3\<lparr>variantId_value := v\<rparr>) w" for v
    by (rule sameTimers_trans [OF sameTimers_steps(2) s3])
  have s5: "sameTimers (update_container (\<lambda>c. c\<lparr>component_attributes := a c\<rparr>)
      (w3\<lparr>variantId_value := v\<rparr>)) w" for v a
    by (rule sameTimers_trans [OF sameTimers_steps(5) s4])
  have "snd (onVariantUpdate morph ev w) =
     (if newProduct_id ev = None \<and> data_productId ev \<noteq> dataset_productId w then w
      else if currentAddToCartButton w1 = None then w1
      else case resource ev of
             None \<Rightarrow> w3
           | Some r \<Rightarrow>
               (case featured_media_src r of
                  None \<Rightarrow> w3\<lparr>variantId_value := nullishToEmpty (variant_id r)\<rparr>
                | Some media \<Rightarrow>
                    if media = [] then w3\<lparr>variantId_value := nullishToEmpty (variant_id r)\<rparr>
                    else update_container
                           (\<lambda>c. c\<lparr>component_attributes :=
                                    AList.update ''data-product-variant-media''
                                      (media @ ''&width=100'') (component_attributes c)\<rparr>)
                           (w3\<lparr>variantId_value := nullishToEmpty (variant_id r)\<rparr>)))"
    unfolding w1_def w3_def by (simp only: onVariantUpdate_cases Let_def)
  then show ?thesis
    by (simp add: sameTimers_refl s1 s3 s4 s5 split: option.splits)
qed

lemma tracked_onVariantUpdate:
  "timersTracked w \<Longrightarrow> timersTracked (snd (onVariantUpdate morph ev w))"
  by (rule sameTimers_tracked [OF sameTimers_onVariantUpdate])

lemma find_timer:
  "find (\<lambda>t. timer_id t = h) ts = Some t \<Longrightarrow> t \<in> set ts \<and> timer_id t = h"
  by (auto simp: find_Some_iff)

lemma tracked_clearTimeout: "timersTracked w \<Longrightarrow> timersTracked (clearTimeout h w)"
  by (erule tracked_filter [where P = "\<lambda>t. timer_id t \<noteq> h"])
    (simp_all add: clearTimeout_def animationHandle_def cleanupHandle_def)

lemma addToCartTimers_clearTimeout:
  "addToCartTimers (clearTimeout h w) = filter (\<lambda>t. timer_id t \<noteq> h) (addToCartTimers w)"
  by (simp add: addToCartTimers_def clearTimeout_def) (metis (mono_tags, lifting) filter_cong)

lemma handles_clearTimeout:
  "animationHandle (clearTimeout h w) = animationHandle w"
  "cleanupHandle (clearTimeout h w) = cleanupHandle w"
  "nextTimerId (clearTimeout h w) = nextTimerId w"
  "addToCartButtonContainer (clearTimeout h w) = addToCartButtonContainer w"
  by (simp_all add: clearTimeout_def animationHandle_def cleanupHandle_def)

lemma tracked_has_container:
  "timersTracked w \<Longrightarrow> t \<in> set (addToCartTimers w)
     \<Longrightarrow> addToCartTimers w = [t] \<and> addToCartButtonContainer w \<noteq> None"
  by (cases "addToCartButtonContainer w")
    (auto simp: timersTracked_def animationHandle_def cleanupHandle_def)

lemma runCallback_AnimationDone:
  "snd (runCallback AnimationDone w)
     = update_container (\<lambda>c. c\<lparr>cleanupTimeout := Some (nextTimerId w)\<rparr>)
         (snd (setTimeout RemoveAtcAdded 10 w))"
  by (simp add: split_beta handles_setTimeout)

lemma tracked_runCallback:
  assumes "timersTracked w"
    and "cb = AnimationDone \<longrightarrow> addToCartTimers w = [] \<and> addToCartButtonContainer w \<noteq> None"
  shows "timersTracked (snd (runCallback cb w))"
proof (cases cb)
  case AnimationDone
  with assms(2) have none: "addToCartTimers w = []" and c: "addToCartButtonContainer w \<noteq> None"
    by simp_all
  from c have c1: "addToCartButtonContainer (snd (setTimeout RemoveAtcAdded 10 w)) \<noteq> None"
    by (simp add: container_setTimeout)
  show ?thesis
    unfolding AnimationDone runCallback_AnimationDone
    by (rule tracked_arm_addToCart [OF assms(1) none, where cb = RemoveAtcAdded and d = "now w + 10"])
      (simp_all add: handles_update_container_animation handles_setTimeout
        handles_update_container_cleanup c1)
next
  case RemoveAtcAdded
  show ?thesis
    unfolding RemoveAtcAdded
    by (cases "currentAddToCartButton w")
      (simp_all add: assms(1) sameTimers_tracked [OF sameTimers_steps(4) assms(1)])
next
  case ErrorClear
  show ?thesis
    unfolding ErrorClear
    by (cases "addToCartTextError w")
      (simp_all add: assms(1) clearLiveRegionText_def,
        rule timersTracked_cong [OF assms(1)], simp_all add: handles_fields)
next
  case LiveRegionClear
  show ?thesis
    unfolding LiveRegionClear
    by (simp add: clearLiveRegionText_def, rule timersTracked_cong [OF assms(1)])
      (simp_all add: handles_fields)
qed

lemma tracked_fireTimer:
  assumes "timersTracked w"
  shows "timersTracked (snd (fireTimer h w))"
proof (cases "find (\<lambda>t. timer_id t = h) (timers w)")
  case None
  with assms show ?thesis by (simp add: fireTimer_def)
next
  case (Some t)
  then have t: "t \<in> set (timers w)" "timer_id t = h"
    by (auto dest: find_timer)
  show ?thesis
  proof (cases "due t \<le> now w")
    case False
    with Some assms show ?thesis by (simp add: fireTimer_def)
  next
    case True
    then have eq: "snd (fireTimer h w) = snd (runCallback (callback t) (clearTimeout h w))"
      using Some by (simp add: fireTimer_def)
    have "addToCartTimers (clearTimeout h w) = [] \<and> addToCartButtonContainer (clearTimeout h w) \<noteq> None"
      if "callback t = AnimationDone"
    proof -
      from that t have "t \<in> set (addToCartTimers w)"
        by (simp add: addToCartTimers_def isAddToCartTimer_def)
      from tracked_has_container [OF assms this] t show ?thesis
        by (simp add: addToCartTimers_clearTimeout handles_clearTimeout)
    qed
    then show ?thesis
      unfolding eq by (intro tracked_runCallback tracked_clearTimeout assms) simp
  qed
qed

lemma tracked_exec: "timersTracked w \<Longrightarrow> timersTracked (exec parse morph a w)"
  by (cases a)
    (simp_all add: tracked_animateAddToCart tracked_addToCart_disconnected tracked_connected
      tracked_disconnected tracked_handleSubmit tracked_settle tracked_onVariantUpdate
      tracked_fireTimer tracked_elapse)

lemma tracked_run: "timersTracked w \<Longrightarrow> timersTracked (run parse morph acts w)"
  by (induction acts arbitrary: w) (simp_all add: tracked_exec)

lemma tracked_at_most_one: "timersTracked w \<Longrightarrow> length (addToCartTimers w) \<le> 1"
  by (auto simp: timersTracked_def)

lemma addToCartTimers_append:
  "timers w' = timers w @ [t] \<Longrightarrow> isAddToCartTimer t
     \<Longrightarrow> addToCartTimers w' = addToCartTimers w @ [t]"
  by (simp add: addToCartTimers_def)

lemma fresh_samplePage: "fresh samplePage"
  by (simp add: fresh_def samplePage_def)

text \<open>
  C9. On every page reached from a fresh one, by any run of the actions, the add-to-cart
  component has at most one pending timer (the animation timer or the cleanup timer that
  removes \<^verbatim>\<open>atc-added\<close>), and \<^verbatim>\<open>animateAddToCart\<close> on such a page leaves exactly the
  newly armed animation timer pending: the earlier ones were cancelled first.
\<close>

theorem animateAddToCart_single_timer:
  assumes "fresh w"
  shows "length (addToCartTimers (run parse morph acts w)) \<le> 1
       \<and> (\<forall>c b. addToCartButtonContainer (run parse morph acts w) = Some c \<and> addToCartButton c = Some b
            \<longrightarrow> addToCartTimers (snd (animateAddToCart (run parse morph acts w)))
                 = [\<lparr>timer_id = nextTimerId (run parse morph acts w),
                     due = now (run parse morph acts w) + 2000, callback = AnimationDone\<rparr>])"
proof -
  let ?p = "run parse morph acts w"
  have tr: "timersTracked ?p"
    using assms by (simp add: fresh_tracked tracked_run)
  have "addToCartTimers (snd (animateAddToCart ?p))
      = [\<lparr>timer_id = nextTimerId ?p, due = now ?p + 2000, callback = AnimationDone\<rparr>]"
    if "addToCartButtonContainer ?p = Some c" "addToCartButton c = Some b" for c b
    using addToCartTimers_append [OF animateAddToCart_armed(1) [OF that]]
      addToCartTimers_cleared [OF tr]
    by (simp add: isAddToCartTimer_def ADD_TO_CART_TEXT_ANIMATION_DURATION_def)
  with tracked_at_most_one [OF tr] show ?thesis
    by blast
qed

lemma samplePage_container:
  "addToCartButtonContainer samplePage
     = Some \<lparr>addToCartButton = Some emptyElement, animationTimeout = None, cleanupTimeout = None,
             component_attributes = []\<rparr>"
  by (simp add: samplePage_def)

lemma twoClicks_timers:
  "timers (run parse morph twoClicks samplePage) = [\<lparr>timer_id = 2, due = 3000, callback = AnimationDone\<rparr>]"
  by (simp add: twoClicks_def samplePage_def animateAddToCart_def clearIfSet_def clearTimeout_def
      setTimeout_def update_button_def update_container_def classList_contains_def classList_add_def
      emptyElement_def ADD_TO_CART_TEXT_ANIMATION_DURATION_def Let_def)

theorem animateAddToCart_single_timer_witness:
  "fresh samplePage
   \<and> length (addToCartTimers (run sampleParse (\<lambda>cur new. new) twoClicks samplePage)) \<le> 1
   \<and> timers (run sampleParse (\<lambda>cur new. new) twoClicks samplePage)
       = [\<lparr>timer_id = 2, due = 3000, callback = AnimationDone\<rparr>]"
  using animateAddToCart_single_timer [OF fresh_samplePage, of sampleParse "\<lambda>cur new. new" twoClicks]
    fresh_samplePage twoClicks_timers
  by simp

lemma samplePage_added:
  "settle sampleFormData (Json added) samplePage
     = samplePage
         \<lparr>addToCartTextError :=
            Some ((removeAttribute ''aria-live'' \<circ> classList_add ''hidden'')
                    (emptyElement\<lparr>classList := [''hidden'']\<rparr>)),
          liveRegion_textContent := ''Added'',
          timers := [\<lparr>timer_id = 1, due = 5000, callback = LiveRegionClear\<rparr>],
          nextTimerId := 2,
          dispatched :=
            [CartAddEvent ''42''
               \<lparr>didError = False, source = ''product-form-component'', itemCount = Some ''1'',
                detail_productId = Some ''7'',
                sections = Some [(''cart-drawer'', ''<div>1</div>'')]\<rparr>],
          measured := 1\<rparr>"
proof -
  have i: "''42'' \<noteq> ([] :: string)"
    by simp
  note eq = onResponse_success_button [OF added_ok sampleFormData_fields(1) i samplePage_button]
  show ?thesis
    by (simp add: settle_Json eq samplePage_addedText samplePage_timing samplePage_emitted
        samplePage_errorElement added_fields sampleFormData_fields samplePage_productId)
      (simp add: samplePage_def)
qed

lemma samplePage_soldOut:
  "settle sampleFormData (Json soldOut) samplePage
     = samplePage
         \<lparr>dispatched :=
            [CartErrorEvent ''product-form'' ''Sold out'',
             CartAddEvent ''product-form''
               \<lparr>didError = True, source = ''product-form-component'', itemCount = Some ''1'',
                detail_productId = Some ''7'', sections = None\<rparr>],
          addToCartTextError :=
            Some (writeMessage ''Sold out''
                    (classList_remove ''hidden'' (emptyElement\<lparr>classList := [''hidden'']\<rparr>))),
          liveRegion_textContent := ''Sold out'',
          timers := [\<lparr>timer_id = 1, due = 10000, callback = ErrorClear\<rparr>],
          nextTimerId := 2,
          timeout_handle := Some 1,
          measured := 1\<rparr>"
proof -
  note eq = onResponse_error_element [OF soldOut_fields(1) samplePage_errorElement]
  show ?thesis
    by (simp add: settle_Json eq samplePage_timing samplePage_emitted samplePage_id soldOut_fields
        sampleFormData_fields samplePage_productId)
      (simp add: samplePage_def)
qed

lemma addToCart_teardown_clears:
  "fresh w \<Longrightarrow> addToCartTimers (addToCart_disconnectedCallback (run parse morph acts w)) = []"
  by (simp add: fresh_tracked tracked_run addToCart_disconnected_clears)

text \<open>
  C8. The teardown of the add-to-cart component clears the two timers of that component
  (\<open>addToCart_teardown_clears\<close>). The teardown of the product form clears none: it only
  aborts the listener. On the sample page, a success followed by the teardown leaves the
  timer that clears the live region pending (its handle was never kept), and an error
  followed by the teardown leaves the timer that clears the error pending, with its handle
  still in \<^verbatim>\<open>#timeout\<close>. Both callbacks then run against the detached component when the
  timers are due.
\<close>

theorem productForm_teardown_leaves_timers:
  "timers (run sampleParse (\<lambda>cur new. new) addedThenTornDown samplePage)
     = [\<lparr>timer_id = 1, due = 5000, callback = LiveRegionClear\<rparr>]
   \<and> liveRegion_textContent
        (run sampleParse (\<lambda>cur new. new) (addedThenTornDown @ [Elapse 5000]) samplePage) = ''Added''
   \<and> liveRegion_textContent
        (run sampleParse (\<lambda>cur new. new) (addedThenTornDown @ [Elapse 5000, FireTimer 1]) samplePage) = []
   \<and> timers (run sampleParse (\<lambda>cur new. new) soldOutThenTornDown samplePage)
       = [\<lparr>timer_id = 1, due = 10000, callback = ErrorClear\<rparr>]
   \<and> timeout_handle (run sampleParse (\<lambda>cur new. new) soldOutThenTornDown samplePage) = Some 1
   \<and> liveRegion_textContent
        (run sampleParse (\<lambda>cur new. new) (soldOutThenTornDown @ [Elapse 10000]) samplePage)
       = ''Sold out''
   \<and> liveRegion_textContent
        (run sampleParse (\<lambda>cur new. new) (soldOutThenTornDown @ [Elapse 10000, FireTimer 1]) samplePage)
       = []
   \<and> timers (run sampleParse (\<lambda>cur new. new) (soldOutThenTornDown @ [Elapse 10000, FireTimer 1]) samplePage)
       = []"
  by (simp add: addedThenTornDown_def soldOutThenTornDown_def samplePage_added samplePage_soldOut
      productForm_disconnectedCallback_def fireTimer_def clearTimeout_def clearLiveRegionText_def)

end
